theory Spec2Isabelle
  imports Complex_Main
begin

section \<open>Data model\<close>

text \<open>
  The documents of the Mongoose schemas, reduced to the paths that the status and rating
  controllers decide on or compute; paths that a controller only copies from the request
  (the breakdown of a rating, the event details of an order) are left out. An ObjectId
  is a natural number and a Date is a number of milliseconds. JavaScript numbers holding counters and scores are integers (the routes
  accept integer scores only); the aggregate averages are exact rationals, so
  \<open>Math.ceil(x * 10) / 10\<close> is computed without the rounding of doubles.
  Every record field carries a prefix for its schema, since two records cannot share a
  field name: \<open>v_\<close> Vendor, \<open>w_\<close> Waiter, \<open>o_\<close> Order, \<open>j_\<close> Job,
  \<open>r_\<close> Rating, \<open>u_\<close> User.
\<close>

type_synonym ObjectId = nat
type_synonym Date = nat

record Vendor =
  v_id :: ObjectId
  v_user :: ObjectId
  v_averageRating :: rat
  v_totalRatings :: int
  v_totalBookings :: int
  v_completedBookings :: int

record Waiter =
  w_id :: ObjectId
  w_user :: ObjectId
  w_averageRating :: rat
  w_attitudeRating :: rat
  w_totalRatings :: int
  w_totalJobs :: int
  w_completedJobs :: int

record Order =
  o_id :: ObjectId
  o_user :: ObjectId
  o_vendor :: ObjectId
  o_status :: string
  o_isRated :: bool

record Job =
  j_id :: ObjectId
  j_vendor :: ObjectId
  j_waiter :: ObjectId
  j_status :: string
  j_respondedAt :: "Date option"
  j_declineReason :: "string option"
  j_completedAt :: "Date option"
  j_isRated :: bool

record Rating =
  r_id :: ObjectId
  r_reviewer :: ObjectId
  r_vendor :: "ObjectId option"
  r_waiter :: "ObjectId option"
  r_order :: "ObjectId option"
  r_job :: "ObjectId option"
  r_rating :: int
  r_attitudeRating :: "int option"
  r_review :: "string option"
  r_isActive :: bool
  r_response :: "(string \<times> Date) option"
  r_isReported :: bool
  r_reportReason :: "string option"

text \<open>
  A User document: \<open>req.user\<close> is the one that \<open>protect\<close> loads for the token.
\<close>

record User =
  u_id :: ObjectId
  u_role :: string

text \<open>The collections, each in insertion order (\<open>findOne\<close> returns the first match).\<close>

record db =
  users :: "User list"
  vendors :: "Vendor list"
  waiters :: "Waiter list"
  orders :: "Order list"
  jobs :: "Job list"
  ratings :: "Rating list"

text \<open>
  Failures. \<open>ErrorResponse message statusCode\<close> is the controllers' own error class;
  the others are what the runtime and Mongoose raise, which \<open>asyncHandler\<close> hands to
  the same error middleware.
\<close>

datatype error =
    ErrorResponse string nat
  | TypeError
  | ValidationError string
  | JsError string
  | DuplicateKey

section \<open>Queries and writes\<close>

definition Vendor_findById :: "ObjectId \<Rightarrow> db \<Rightarrow> Vendor option" where
  "Vendor_findById i d = find (\<lambda>v. v_id v = i) (vendors d)"

definition Vendor_findByUser :: "ObjectId \<Rightarrow> db \<Rightarrow> Vendor option" where
  "Vendor_findByUser uid d = find (\<lambda>v. v_user v = uid) (vendors d)"

definition Waiter_findById :: "ObjectId \<Rightarrow> db \<Rightarrow> Waiter option" where
  "Waiter_findById i d = find (\<lambda>w. w_id w = i) (waiters d)"

definition Waiter_findByUser :: "ObjectId \<Rightarrow> db \<Rightarrow> Waiter option" where
  "Waiter_findByUser uid d = find (\<lambda>w. w_user w = uid) (waiters d)"

definition Order_findById :: "ObjectId \<Rightarrow> db \<Rightarrow> Order option" where
  "Order_findById i d = find (\<lambda>x. o_id x = i) (orders d)"

definition Job_findById :: "ObjectId \<Rightarrow> db \<Rightarrow> Job option" where
  "Job_findById i d = find (\<lambda>x. j_id x = i) (jobs d)"

definition Rating_findById :: "ObjectId \<Rightarrow> db \<Rightarrow> Rating option" where
  "Rating_findById i d = find (\<lambda>x. r_id x = i) (ratings d)"

text \<open>
  \<open>doc.save()\<close> of a document loaded in the same request: the stored document with
  that \<open>_id\<close> is replaced.
\<close>

definition Vendor_save :: "Vendor \<Rightarrow> db \<Rightarrow> db" where
  "Vendor_save v d = d\<lparr>vendors := map (\<lambda>x. if v_id x = v_id v then v else x) (vendors d)\<rparr>"

definition Waiter_save :: "Waiter \<Rightarrow> db \<Rightarrow> db" where
  "Waiter_save w d = d\<lparr>waiters := map (\<lambda>x. if w_id x = w_id w then w else x) (waiters d)\<rparr>"

definition Order_save :: "Order \<Rightarrow> db \<Rightarrow> db" where
  "Order_save x d = d\<lparr>orders := map (\<lambda>y. if o_id y = o_id x then x else y) (orders d)\<rparr>"

definition Job_save :: "Job \<Rightarrow> db \<Rightarrow> db" where
  "Job_save x d = d\<lparr>jobs := map (\<lambda>y. if j_id y = j_id x then x else y) (jobs d)\<rparr>"

section \<open>Order status transitions (updateOrderStatus)\<close>

text \<open>
  The object literal \<open>validTransitions\<close> of \<open>updateOrderStatus\<close>. A key that the
  literal does not have gives \<open>undefined\<close>, and \<open>.includes\<close> on it raises a TypeError.
\<close>

definition validTransitions_order :: "string \<Rightarrow> string list option" where
  "validTransitions_order s =
     (if s = ''pending'' then Some [''confirmed'', ''cancelled'']
      else if s = ''confirmed'' then Some [''in-progress'', ''cancelled'']
      else if s = ''in-progress'' then Some [''completed'', ''cancelled'']
      else if s = ''completed'' then Some []
      else if s = ''cancelled'' then Some []
      else if s = ''refunded'' then Some []
      else None)"

definition updateOrderStatus :: "User \<Rightarrow> ObjectId \<Rightarrow> string \<Rightarrow> db \<Rightarrow> error + db" where
  "updateOrderStatus user orderId status d =
     (case Vendor_findByUser (u_id user) d of
        None \<Rightarrow> Inl (ErrorResponse ''Vendor profile not found'' 404)
      | Some vendor \<Rightarrow>
     (case find (\<lambda>x. o_id x = orderId \<and> o_vendor x = v_id vendor) (orders d) of
        None \<Rightarrow> Inl (ErrorResponse ''Order not found'' 404)
      | Some order \<Rightarrow>
     (case validTransitions_order (o_status order) of
        None \<Rightarrow> Inl TypeError
      | Some allowed \<Rightarrow>
          if \<not> List.member allowed status
          then Inl (ErrorResponse
                 (''Cannot change status from '' @ o_status order @ '' to '' @ status) 400)
          else
            let order' = order\<lparr>o_status := status\<rparr>;
                d1 = (if status = ''completed''
                      then Vendor_save
                             (vendor\<lparr>v_completedBookings := v_completedBookings vendor + 1\<rparr>) d
                      else d)
            in Inr (Order_save order' d1))))"

section \<open>Job status transitions (updateJobStatus)\<close>

definition validTransitions_job :: "string \<Rightarrow> string list option" where
  "validTransitions_job s =
     (if s = ''pending'' then Some [''accepted'', ''declined'']
      else if s = ''accepted'' then Some [''in-progress'', ''cancelled'']
      else if s = ''declined'' then Some []
      else if s = ''in-progress'' then Some [''completed'']
      else if s = ''completed'' then Some []
      else if s = ''cancelled'' then Some []
      else None)"

text \<open>
  \<open>req.body.declineReason\<close> is truthy when it is a non-empty string. \<open>now\<close> is the
  value of \<open>Date.now()\<close>.
\<close>

definition truthy :: "string option \<Rightarrow> bool" where
  "truthy s = (case s of None \<Rightarrow> False | Some t \<Rightarrow> t \<noteq> [])"

definition updateJobStatus ::
  "User \<Rightarrow> ObjectId \<Rightarrow> string \<Rightarrow> string option \<Rightarrow> Date \<Rightarrow> db \<Rightarrow> error + db" where
  "updateJobStatus user jobId status declineReason now d =
     (case Waiter_findByUser (u_id user) d of
        None \<Rightarrow> Inl (ErrorResponse ''Waiter profile not found'' 404)
      | Some waiter \<Rightarrow>
     (case find (\<lambda>x. j_id x = jobId \<and> j_waiter x = w_id waiter) (jobs d) of
        None \<Rightarrow> Inl (ErrorResponse ''Job not found'' 404)
      | Some job \<Rightarrow>
     (case validTransitions_job (j_status job) of
        None \<Rightarrow> Inl TypeError
      | Some allowed \<Rightarrow>
          if \<not> List.member allowed status
          then Inl (ErrorResponse
                 (''Cannot change status from '' @ j_status job @ '' to '' @ status) 400)
          else
            let job1 = job\<lparr>j_status := status\<rparr>;
                job2 = (if status = ''accepted'' \<or> status = ''declined''
                        then (let jr = job1\<lparr>j_respondedAt := Some now\<rparr>
                              in if status = ''declined'' \<and> truthy declineReason
                                 then jr\<lparr>j_declineReason := declineReason\<rparr> else jr)
                        else job1)
            in if status = ''completed''
               then Inr (Job_save (job2\<lparr>j_completedAt := Some now\<rparr>)
                          (Waiter_save (waiter\<lparr>w_completedJobs := w_completedJobs waiter + 1,
                                               w_totalJobs := w_totalJobs waiter + 1\<rparr>) d))
               else if status = ''accepted''
               then Inr (Job_save job2
                          (Waiter_save (waiter\<lparr>w_totalJobs := w_totalJobs waiter + 1\<rparr>) d))
               else Inr (Job_save job2 d))))"

section \<open>The transition tables of the specification\<close>

text \<open>
  The allowed-successor sets as the specification words them, to be compared with the
  tables of the controllers.
\<close>

definition order_successors :: "string \<Rightarrow> string set" where
  "order_successors s =
     (if s = ''pending'' then {''confirmed'', ''cancelled''}
      else if s = ''confirmed'' then {''in-progress'', ''cancelled''}
      else if s = ''in-progress'' then {''completed'', ''cancelled''}
      else {})"

definition job_successors :: "string \<Rightarrow> string set" where
  "job_successors s =
     (if s = ''pending'' then {''accepted'', ''declined''}
      else if s = ''accepted'' then {''in-progress'', ''cancelled''}
      else if s = ''in-progress'' then {''completed''}
      else {})"

text \<open>The status enums of the Order and Job schemas.\<close>

definition order_statuses :: "string list" where
  "order_statuses =
     [''pending'', ''confirmed'', ''in-progress'', ''completed'', ''cancelled'', ''refunded'']"

definition job_statuses :: "string list" where
  "job_statuses =
     [''pending'', ''accepted'', ''declined'', ''in-progress'', ''completed'', ''cancelled'']"

text \<open>The failure the specification calls InvalidTransition.\<close>

definition InvalidTransition :: "string \<Rightarrow> string \<Rightarrow> error" where
  "InvalidTransition cur new =
     ErrorResponse (''Cannot change status from '' @ cur @ '' to '' @ new) 400"

text \<open>
  The document that a status update loads: the profile of the user, then the order or
  job with the given id among those of that profile.
\<close>

definition owned_order :: "User \<Rightarrow> ObjectId \<Rightarrow> db \<Rightarrow> Order option" where
  "owned_order user orderId d =
     (case Vendor_findByUser (u_id user) d of
        None \<Rightarrow> None
      | Some vendor \<Rightarrow> find (\<lambda>x. o_id x = orderId \<and> o_vendor x = v_id vendor) (orders d))"

definition owned_job :: "User \<Rightarrow> ObjectId \<Rightarrow> db \<Rightarrow> Job option" where
  "owned_job user jobId d =
     (case Waiter_findByUser (u_id user) d of
        None \<Rightarrow> None
      | Some waiter \<Rightarrow> find (\<lambda>x. j_id x = jobId \<and> j_waiter x = w_id waiter) (jobs d))"

section \<open>Rating aggregation (Vendor.updateRating, Waiter.updateRating)\<close>

text \<open>
  \<open>$avg\<close> of the numeric values of a path: \<open>null\<close> when no document has one.
  \<open>Math.ceil(x * 10) / 10\<close>, where \<open>null * 10\<close> is \<open>0\<close>.
\<close>

definition avg :: "int list \<Rightarrow> rat option" where
  "avg xs = (if xs = [] then None else Some (of_int (sum_list xs) / of_int (int (length xs))))"

definition ceil_tenth :: "rat option \<Rightarrow> rat" where
  "ceil_tenth a = (case a of None \<Rightarrow> 0 | Some x \<Rightarrow> of_int \<lceil>x * 10\<rceil> / 10)"

text \<open>
  The aggregation pipelines: \<open>$match\<close> on the profile's \<open>_id\<close> alone, then one
  \<open>$group\<close> per matched profile, so the result has no entry or one.
\<close>

definition vendor_stats :: "ObjectId \<Rightarrow> db \<Rightarrow> (rat option \<times> int) list" where
  "vendor_stats vid d =
     (let ms = filter (\<lambda>r. r_vendor r = Some vid) (ratings d)
      in if ms = [] then [] else [(avg (map r_rating ms), int (length ms))])"

definition waiter_stats :: "ObjectId \<Rightarrow> db \<Rightarrow> (rat option \<times> rat option \<times> int) list" where
  "waiter_stats wid d =
     (let ms = filter (\<lambda>r. r_waiter r = Some wid) (ratings d)
      in if ms = [] then []
         else [(avg (map r_rating ms), avg (List.map_filter r_attitudeRating ms),
                int (length ms))])"

definition Vendor_updateRating :: "Vendor \<Rightarrow> db \<Rightarrow> Vendor \<times> db" where
  "Vendor_updateRating this d =
     (let this' =
        (case vendor_stats (v_id this) d of
           (a, n) # _ \<Rightarrow> this\<lparr>v_averageRating := ceil_tenth a, v_totalRatings := n\<rparr>
         | [] \<Rightarrow> this\<lparr>v_averageRating := 0, v_totalRatings := 0\<rparr>)
      in (this', Vendor_save this' d))"

definition Waiter_updateRating :: "Waiter \<Rightarrow> db \<Rightarrow> Waiter \<times> db" where
  "Waiter_updateRating this d =
     (let this' =
        (case waiter_stats (w_id this) d of
           (a, t, n) # _ \<Rightarrow>
             this\<lparr>w_averageRating := ceil_tenth a, w_attitudeRating := ceil_tenth t,
                  w_totalRatings := n\<rparr>
         | [] \<Rightarrow> this\<lparr>w_averageRating := 0, w_attitudeRating := 0, w_totalRatings := 0\<rparr>)
      in (this', Waiter_save this' d))"

section \<open>The Rating schema: validators, indexes and hooks\<close>

text \<open>
  The path validators of the schema (min, max, maxlength). Mongoose reports the failing
  paths together in one ValidationError; the first of them stands for it here.
\<close>

definition Rating_validate :: "Rating \<Rightarrow> error option" where
  "Rating_validate this =
     (if r_rating this < 1 then Some (ValidationError ''Rating must be at least 1'')
      else if r_rating this > 5 then Some (ValidationError ''Rating cannot be more than 5'')
      else if (case r_attitudeRating this of None \<Rightarrow> False | Some a \<Rightarrow> a < 1)
        then Some (ValidationError ''Attitude rating must be at least 1'')
      else if (case r_attitudeRating this of None \<Rightarrow> False | Some a \<Rightarrow> a > 5)
        then Some (ValidationError ''Attitude rating cannot be more than 5'')
      else if (case r_review this of None \<Rightarrow> False | Some t \<Rightarrow> length t > 500)
        then Some (ValidationError ''Review cannot be more than 500 characters'')
      else None)"

text \<open>
  \<open>pre("save")\<close>: with both targets or neither, the hook calls \<open>next\<close> with an
  Error and then \<open>next()\<close> once more; Mongoose lets a hook's \<open>next\<close> act once, so
  the save is rejected with that Error.
\<close>

definition pre_save :: "Rating \<Rightarrow> error option" where
  "pre_save this =
     (if (r_vendor this \<noteq> None \<and> r_waiter this \<noteq> None)
         \<or> (r_vendor this = None \<and> r_waiter this = None)
      then Some (JsError ''Must rate either a vendor or a waiter, not both or neither'')
      else None)"

text \<open>
  The two unique partial indexes: \<open>{reviewer, vendor, order}\<close> over the documents that
  have \<open>vendor\<close> and \<open>order\<close>, and \<open>{reviewer, waiter, job}\<close> over those that have
  \<open>waiter\<close> and \<open>job\<close>. Neither looks at \<open>isActive\<close>.
\<close>

definition unique_violation :: "Rating \<Rightarrow> Rating list \<Rightarrow> bool" where
  "unique_violation this rs =
     ((r_vendor this \<noteq> None \<and> r_order this \<noteq> None \<and>
        list_ex (\<lambda>x. r_id x \<noteq> r_id this \<and> r_reviewer x = r_reviewer this \<and>
                     r_vendor x = r_vendor this \<and> r_order x = r_order this) rs)
      \<or> (r_waiter this \<noteq> None \<and> r_job this \<noteq> None \<and>
        list_ex (\<lambda>x. r_id x \<noteq> r_id this \<and> r_reviewer x = r_reviewer this \<and>
                     r_waiter x = r_waiter this \<and> r_job x = r_job this) rs))"

text \<open>\<open>post("save")\<close>: recompute the aggregates of the rated profile, when it exists.\<close>

definition post_save :: "Rating \<Rightarrow> db \<Rightarrow> db" where
  "post_save this d =
     (let d1 = (case r_vendor this of
                  None \<Rightarrow> d
                | Some vid \<Rightarrow>
                    (case Vendor_findById vid d of
                       None \<Rightarrow> d
                     | Some vendor \<Rightarrow> snd (Vendor_updateRating vendor d)))
      in (case r_waiter this of
            None \<Rightarrow> d1
          | Some wid \<Rightarrow>
              (case Waiter_findById wid d1 of
                 None \<Rightarrow> d1
               | Some waiter \<Rightarrow> snd (Waiter_updateRating waiter d1))))"

text \<open>A new ObjectId: one that no stored rating has.\<close>

definition new_ObjectId :: "Rating list \<Rightarrow> ObjectId" where
  "new_ObjectId rs = Suc (foldr max (map r_id rs) 0)"

text \<open>
  \<open>Rating.create(doc)\<close>: a new document with a new \<open>_id\<close> and the schema defaults
  of the paths that the caller does not give, then validation, the pre-save hook, the
  insert under the unique indexes, and the post-save hook.
\<close>

definition Rating_create :: "Rating \<Rightarrow> db \<Rightarrow> error + (Rating \<times> db)" where
  "Rating_create doc d =
     (let this = doc\<lparr>r_id := new_ObjectId (ratings d)\<rparr>
      in case Rating_validate this of
           Some e \<Rightarrow> Inl e
         | None \<Rightarrow>
        (case pre_save this of
           Some e \<Rightarrow> Inl e
         | None \<Rightarrow>
             if unique_violation this (ratings d) then Inl DuplicateKey
             else Inr (this, post_save this (d\<lparr>ratings := ratings d @ [this]\<rparr>))))"

text \<open>
  \<open>rating.save()\<close> of a stored document: validation, the pre-save hook, the update of
  the stored document (the controllers change no indexed path, so the unique indexes
  have nothing to reject) and the post-save hook.
\<close>

definition Rating_save :: "Rating \<Rightarrow> db \<Rightarrow> error + db" where
  "Rating_save this d =
     (case Rating_validate this of
        Some e \<Rightarrow> Inl e
      | None \<Rightarrow>
     (case pre_save this of
        Some e \<Rightarrow> Inl e
      | None \<Rightarrow>
          Inr (post_save this
                 (d\<lparr>ratings :=
                      map (\<lambda>x. if r_id x = r_id this then this else x) (ratings d)\<rparr>))))"

section \<open>Rating controllers (rateVendor, rateWaiter, deleteRating, reportRating, respondToRating)\<close>

text \<open>The request body of the two rate routes.\<close>

record rate_body =
  b_rating :: int
  b_attitudeRating :: "int option"
  b_review :: "string option"

definition NotEligible_vendor :: error where
  "NotEligible_vendor =
     ErrorResponse ''You can only rate vendors you have booked and completed services with'' 400"

definition DuplicateRating_vendor :: error where
  "DuplicateRating_vendor =
     ErrorResponse ''You have already rated this vendor for this booking'' 400"

definition NotEligible_waiter :: error where
  "NotEligible_waiter =
     ErrorResponse ''You can only rate waiters you have hired and completed jobs with'' 400"

definition DuplicateRating_waiter :: error where
  "DuplicateRating_waiter =
     ErrorResponse ''You have already rated this waiter for this job'' 400"

definition NotAuthorized_delete :: error where
  "NotAuthorized_delete = ErrorResponse ''Not authorized to delete this rating'' 403"

text \<open>The queries of \<open>rateVendor\<close>.\<close>

definition completed_order :: "User \<Rightarrow> ObjectId \<Rightarrow> db \<Rightarrow> Order option" where
  "completed_order user vid d =
     find (\<lambda>x. o_user x = u_id user \<and> o_vendor x = vid \<and> o_status x = ''completed'') (orders d)"

definition vendor_rating_of :: "User \<Rightarrow> ObjectId \<Rightarrow> ObjectId \<Rightarrow> db \<Rightarrow> Rating option" where
  "vendor_rating_of user vid oid d =
     find (\<lambda>r. r_reviewer r = u_id user \<and> r_vendor r = Some vid \<and> r_order r = Some oid)
       (ratings d)"

definition rateVendor :: "User \<Rightarrow> ObjectId \<Rightarrow> rate_body \<Rightarrow> db \<Rightarrow> error + db" where
  "rateVendor user vid body d =
     (case Vendor_findById vid d of
        None \<Rightarrow> Inl (ErrorResponse ''Vendor not found'' 404)
      | Some vendor \<Rightarrow>
     (case completed_order user vid d of
        None \<Rightarrow> Inl NotEligible_vendor
      | Some existingOrder \<Rightarrow>
     (case vendor_rating_of user vid (o_id existingOrder) d of
        Some existingRating \<Rightarrow> Inl DuplicateRating_vendor
      | None \<Rightarrow>
     (case Rating_create
             \<lparr>r_id = 0, r_reviewer = u_id user, r_vendor = Some vid, r_waiter = None,
              r_order = Some (o_id existingOrder), r_job = None, r_rating = b_rating body,
              r_attitudeRating = None, r_review = b_review body, r_isActive = True,
              r_response = None, r_isReported = False, r_reportReason = None\<rparr> d of
        Inl e \<Rightarrow> Inl e
      | Inr (rating, d') \<Rightarrow> Inr (Order_save (existingOrder\<lparr>o_isRated := True\<rparr>) d')))))"

text \<open>
  \<open>req.user.vendorProfile\<close>: the User schema has no such path and \<open>protect\<close> sets
  none, so the read gives \<open>undefined\<close> for every user.
\<close>

definition vendorProfile :: "User \<Rightarrow> ObjectId option" where
  "vendorProfile user = None"

text \<open>
  The queries of \<open>rateWaiter\<close>. The filter \<open>vendor: req.user.vendorProfile\<close> matches
  the jobs whose vendor is that value; \<open>undefined\<close> matches a job without a vendor,
  which the schema (\<open>required\<close>) excludes.
\<close>

definition completed_job :: "User \<Rightarrow> ObjectId \<Rightarrow> db \<Rightarrow> Job option" where
  "completed_job user wid d =
     find (\<lambda>x. j_waiter x = wid \<and> Some (j_vendor x) = vendorProfile user
                \<and> j_status x = ''completed'') (jobs d)"

definition waiter_rating_of :: "User \<Rightarrow> ObjectId \<Rightarrow> ObjectId \<Rightarrow> db \<Rightarrow> Rating option" where
  "waiter_rating_of user wid jid d =
     find (\<lambda>r. r_reviewer r = u_id user \<and> r_waiter r = Some wid \<and> r_job r = Some jid)
       (ratings d)"

definition rateWaiter :: "User \<Rightarrow> ObjectId \<Rightarrow> rate_body \<Rightarrow> db \<Rightarrow> error + db" where
  "rateWaiter user wid body d =
     (case Waiter_findById wid d of
        None \<Rightarrow> Inl (ErrorResponse ''Waiter not found'' 404)
      | Some waiter \<Rightarrow>
     (case completed_job user wid d of
        None \<Rightarrow> Inl NotEligible_waiter
      | Some existingJob \<Rightarrow>
     (case waiter_rating_of user wid (j_id existingJob) d of
        Some existingRating \<Rightarrow> Inl DuplicateRating_waiter
      | None \<Rightarrow>
     (case Rating_create
             \<lparr>r_id = 0, r_reviewer = u_id user, r_vendor = None, r_waiter = Some wid,
              r_order = None, r_job = Some (j_id existingJob), r_rating = b_rating body,
              r_attitudeRating = b_attitudeRating body, r_review = b_review body,
              r_isActive = True, r_response = None, r_isReported = False,
              r_reportReason = None\<rparr> d of
        Inl e \<Rightarrow> Inl e
      | Inr (rating, d') \<Rightarrow> Inr (Job_save (existingJob\<lparr>j_isRated := True\<rparr>) d')))))"

text \<open>
  String forms. \<open>toString()\<close> of an ObjectId is the id in 24 hexadecimal digits.
  \<open>toString()\<close> of a Mongoose document is its inspect form, an object literal in
  braces; it shows the \<open>_id\<close> here (the other paths that the hook selects, the names
  and the picture, are not in the model).
\<close>

definition hex_char :: "nat \<Rightarrow> char" where
  "hex_char k = ''0123456789abcdef'' ! (k mod 16)"

fun hex_digits :: "nat \<Rightarrow> nat \<Rightarrow> string" where
  "hex_digits 0 i = []"
| "hex_digits (Suc n) i = hex_digits n (i div 16) @ [hex_char i]"

definition ObjectId_toString :: "ObjectId \<Rightarrow> string" where
  "ObjectId_toString i = hex_digits 24 i"

definition Document_toString :: "User \<Rightarrow> string" where
  "Document_toString doc = ''{ _id: new ObjectId('' @ ObjectId_toString (u_id doc) @ '') }''"

text \<open>
  \<open>ratingSchema.pre(/^find/)\<close> populates \<open>reviewer\<close> on every find: the rating that
  \<open>Rating.findById\<close> returns holds the User document with that id as its
  \<open>reviewer\<close>, or \<open>null\<close> when no user has the id.
\<close>

definition populated_reviewer :: "Rating \<Rightarrow> db \<Rightarrow> User option" where
  "populated_reviewer rating d = find (\<lambda>u. u_id u = r_reviewer rating) (users d)"

text \<open>
  \<open>canDelete\<close> of \<open>deleteRating\<close>:
  \<open>req.user.role === "admin" || rating.reviewer.toString() === req.user._id.toString()\<close>.
  For an administrator the right operand is not evaluated. Otherwise
  \<open>rating.reviewer\<close> is the populated document: \<open>toString\<close> of \<open>null\<close> raises a
  TypeError, and the string form of a document is compared with that of an ObjectId.
\<close>

definition canDelete :: "User \<Rightarrow> Rating \<Rightarrow> db \<Rightarrow> error + bool" where
  "canDelete user rating d =
     (if u_role user = ''admin'' then Inr True
      else case populated_reviewer rating d of
             None \<Rightarrow> Inl TypeError
           | Some reviewer \<Rightarrow>
               Inr (Document_toString reviewer = ObjectId_toString (u_id user)))"

text \<open>
  \<open>deleteRating\<close>: the rating is saved with \<open>isActive\<close> false (with the hooks of
  \<open>save\<close>), and the controller then recomputes the aggregates of the rated profile once
  more.
\<close>

definition deleteRating :: "User \<Rightarrow> ObjectId \<Rightarrow> db \<Rightarrow> error + db" where
  "deleteRating user rid d =
     (case Rating_findById rid d of
        None \<Rightarrow> Inl (ErrorResponse ''Rating not found'' 404)
      | Some rating \<Rightarrow>
     (case canDelete user rating d of
        Inl e \<Rightarrow> Inl e
      | Inr False \<Rightarrow> Inl NotAuthorized_delete
      | Inr True \<Rightarrow>
     (case Rating_save (rating\<lparr>r_isActive := False\<rparr>) d of
        Inl e \<Rightarrow> Inl e
      | Inr d1 \<Rightarrow>
          let d2 = (case r_vendor rating of
                      None \<Rightarrow> d1
                    | Some vid \<Rightarrow>
                        (case Vendor_findById vid d1 of
                           None \<Rightarrow> d1
                         | Some vendor \<Rightarrow> snd (Vendor_updateRating vendor d1)))
          in Inr (case r_waiter rating of
                    None \<Rightarrow> d2
                  | Some wid \<Rightarrow>
                      (case Waiter_findById wid d2 of
                         None \<Rightarrow> d2
                       | Some waiter \<Rightarrow> snd (Waiter_updateRating waiter d2))))))"

definition reportRating :: "User \<Rightarrow> ObjectId \<Rightarrow> string option \<Rightarrow> db \<Rightarrow> error + db" where
  "reportRating user rid reason d =
     (case Rating_findById rid d of
        None \<Rightarrow> Inl (ErrorResponse ''Rating not found'' 404)
      | Some rating \<Rightarrow>
          if r_isReported rating then Inl (ErrorResponse ''Rating is already reported'' 400)
          else Rating_save
                 (rating\<lparr>r_isReported := True,
                         r_reportReason :=
                           (if truthy reason then reason else Some ''Inappropriate content'')\<rparr>) d)"

definition respondToRating :: "User \<Rightarrow> ObjectId \<Rightarrow> string \<Rightarrow> Date \<Rightarrow> db \<Rightarrow> error + db" where
  "respondToRating user rid message now d =
     (case Rating_findById rid d of
        None \<Rightarrow> Inl (ErrorResponse ''Rating not found'' 404)
      | Some rating \<Rightarrow>
          let c1 = (case r_vendor rating of
                      None \<Rightarrow> False
                    | Some vid \<Rightarrow>
                        if u_role user = ''vendor''
                        then find (\<lambda>v. v_id v = vid \<and> v_user v = u_id user) (vendors d) \<noteq> None
                        else False);
              canRespond = (case r_waiter rating of
                      None \<Rightarrow> c1
                    | Some wid \<Rightarrow>
                        if u_role user = ''waiter''
                        then find (\<lambda>w. w_id w = wid \<and> w_user w = u_id user) (waiters d) \<noteq> None
                        else c1)
          in if \<not> canRespond
             then Inl (ErrorResponse ''Not authorized to respond to this rating'' 403)
             else if (case r_response rating of None \<Rightarrow> False | Some (m, t) \<Rightarrow> m \<noteq> [])
             then Inl (ErrorResponse ''You have already responded to this rating'' 400)
             else Rating_save (rating\<lparr>r_response := Some (message, now)\<rparr>) d)"

section \<open>The rating invariant and runs of requests\<close>

text \<open>
  A rating has exactly one target, and the transaction reference of that target's kind:
  a vendor rating carries an Order and no Job, a waiter rating a Job and no Order.
\<close>

definition exactly_one_target :: "Rating \<Rightarrow> bool" where
  "exactly_one_target r = ((r_vendor r \<noteq> None) \<noteq> (r_waiter r \<noteq> None))"

definition rating_wellformed :: "Rating \<Rightarrow> bool" where
  "rating_wellformed r =
     (if r_vendor r \<noteq> None
      then r_waiter r = None \<and> r_order r \<noteq> None \<and> r_job r = None
      else r_waiter r \<noteq> None \<and> r_order r = None \<and> r_job r \<noteq> None)"

text \<open>
  The requests of the status and rating routes, and a run of them: a request that fails
  leaves the database as it was.
\<close>

datatype request =
    RateVendor User ObjectId rate_body
  | RateWaiter User ObjectId rate_body
  | DeleteRating User ObjectId
  | ReportRating User ObjectId "string option"
  | RespondToRating User ObjectId string Date
  | UpdateOrderStatus User ObjectId string
  | UpdateJobStatus User ObjectId string "string option" Date

fun handle :: "request \<Rightarrow> db \<Rightarrow> error + db" where
  "handle (RateVendor user vid body) d = rateVendor user vid body d"
| "handle (RateWaiter user wid body) d = rateWaiter user wid body d"
| "handle (DeleteRating user rid) d = deleteRating user rid d"
| "handle (ReportRating user rid reason) d = reportRating user rid reason d"
| "handle (RespondToRating user rid message now) d = respondToRating user rid message now d"
| "handle (UpdateOrderStatus user oid status) d = updateOrderStatus user oid status d"
| "handle (UpdateJobStatus user jid status reason now) d =
     updateJobStatus user jid status reason now d"

fun run :: "request list \<Rightarrow> db \<Rightarrow> db" where
  "run [] d = d"
| "run (q # qs) d = (case handle q d of Inl e \<Rightarrow> run qs d | Inr d' \<Rightarrow> run qs d')"

section \<open>Sample data for the scenarios of the specification\<close>

definition sample_customer :: User where
  "sample_customer = \<lparr>u_id = 20, u_role = ''user''\<rparr>"

definition sample_vendor_user :: User where
  "sample_vendor_user = \<lparr>u_id = 10, u_role = ''vendor''\<rparr>"

definition sample_waiter_user :: User where
  "sample_waiter_user = \<lparr>u_id = 30, u_role = ''waiter''\<rparr>"

definition sample_stranger :: User where
  "sample_stranger = \<lparr>u_id = 40, u_role = ''user''\<rparr>"

definition sample_admin :: User where
  "sample_admin = \<lparr>u_id = 99, u_role = ''admin''\<rparr>"

definition sample_vendor :: Vendor where
  "sample_vendor =
     \<lparr>v_id = 1, v_user = 10, v_averageRating = 0, v_totalRatings = 0, v_totalBookings = 1,
      v_completedBookings = 0\<rparr>"

definition sample_waiter :: Waiter where
  "sample_waiter =
     \<lparr>w_id = 2, w_user = 30, w_averageRating = 0, w_attitudeRating = 0, w_totalRatings = 0,
      w_totalJobs = 0, w_completedJobs = 0\<rparr>"

definition sample_customer2 :: User where
  "sample_customer2 = \<lparr>u_id = 21, u_role = ''user''\<rparr>"

definition sample_order :: "ObjectId \<Rightarrow> ObjectId \<Rightarrow> string \<Rightarrow> Order" where
  "sample_order i uid st =
     \<lparr>o_id = i, o_user = uid, o_vendor = 1, o_status = st, o_isRated = False\<rparr>"

definition sample_job :: "ObjectId \<Rightarrow> string \<Rightarrow> Job" where
  "sample_job i st =
     \<lparr>j_id = i, j_vendor = 1, j_waiter = 2, j_status = st, j_respondedAt = None,
      j_declineReason = None, j_completedAt = None, j_isRated = False\<rparr>"

definition sample_users :: "User list" where
  "sample_users =
     [sample_vendor_user, sample_customer, sample_customer2, sample_waiter_user,
      sample_stranger, sample_admin]"

text \<open>
  A database with the sample users, the sample vendor, the sample waiter and the given
  documents.
\<close>

definition sample_db :: "Order list \<Rightarrow> Job list \<Rightarrow> Rating list \<Rightarrow> db" where
  "sample_db os js rs =
     \<lparr>users = sample_users, vendors = [sample_vendor], waiters = [sample_waiter],
      orders = os, jobs = js, ratings = rs\<rparr>"

text \<open>
  A rating of the sample vendor by the customer \<open>uid\<close> for the order \<open>oid\<close>, and a
  rating of the sample waiter by the sample vendor for the job \<open>jid\<close>.
\<close>

definition vendor_rating :: "ObjectId \<Rightarrow> ObjectId \<Rightarrow> ObjectId \<Rightarrow> int \<Rightarrow> bool \<Rightarrow> Rating" where
  "vendor_rating i uid oid score active =
     \<lparr>r_id = i, r_reviewer = uid, r_vendor = Some 1, r_waiter = None, r_order = Some oid,
      r_job = None, r_rating = score, r_attitudeRating = None, r_review = None,
      r_isActive = active, r_response = None, r_isReported = False, r_reportReason = None\<rparr>"

definition waiter_rating :: "ObjectId \<Rightarrow> ObjectId \<Rightarrow> int \<Rightarrow> bool \<Rightarrow> Rating" where
  "waiter_rating i jid score active =
     \<lparr>r_id = i, r_reviewer = 10, r_vendor = None, r_waiter = Some 2, r_order = None,
      r_job = Some jid, r_rating = score, r_attitudeRating = None, r_review = None,
      r_isActive = active, r_response = None, r_isReported = False, r_reportReason = None\<rparr>"

definition sample_body :: "int \<Rightarrow> rate_body" where
  "sample_body score = \<lparr>b_rating = score, b_attitudeRating = None, b_review = None\<rparr>"

section \<open>Auxiliary notions for the proofs\<close>

text \<open>
  The recomputation step that \<open>post("save")\<close> and \<open>deleteRating\<close> share: load the
  profile and, when it exists, call its \<open>updateRating\<close>.
\<close>

definition recompute_vendor :: "ObjectId \<Rightarrow> db \<Rightarrow> db" where
  "recompute_vendor vid d =
     (case Vendor_findById vid d of
        None \<Rightarrow> d
      | Some vendor \<Rightarrow> snd (Vendor_updateRating vendor d))"

definition recompute_waiter :: "ObjectId \<Rightarrow> db \<Rightarrow> db" where
  "recompute_waiter wid d =
     (case Waiter_findById wid d of
        None \<Rightarrow> d
      | Some waiter \<Rightarrow> snd (Waiter_updateRating waiter d))"

text \<open>The stored ratings after the soft delete of a rating.\<close>

definition retract :: "Rating \<Rightarrow> db \<Rightarrow> db" where
  "retract rating d =
     d\<lparr>ratings := map (\<lambda>x. if r_id x = r_id rating then rating\<lparr>r_isActive := False\<rparr> else x)
                    (ratings d)\<rparr>"


text \<open>The arithmetic mean of a list of scores, as the specification words it.\<close>

definition mean :: "int list \<Rightarrow> rat" where
  "mean xs = of_int (sum_list xs) / of_int (int (length xs))"

section \<open>Properties of the status transitions\<close>

lemma validTransitions_order_successors:
  "validTransitions_order s = Some xs \<Longrightarrow> set xs = order_successors s"
  by (auto simp: validTransitions_order_def order_successors_def split: if_splits)

lemma validTransitions_job_successors:
  "validTransitions_job s = Some xs \<Longrightarrow> set xs = job_successors s"
  by (auto simp: validTransitions_job_def job_successors_def split: if_splits)

lemma validTransitions_order_enum:
  "s \<in> set order_statuses \<Longrightarrow> \<exists>xs. validTransitions_order s = Some xs"
  by (auto simp: validTransitions_order_def order_statuses_def)

lemma validTransitions_job_enum:
  "s \<in> set job_statuses \<Longrightarrow> \<exists>xs. validTransitions_job s = Some xs"
  by (auto simp: validTransitions_job_def job_statuses_def)

lemma find_replace:
  "find P xs = Some v \<Longrightarrow> P v' \<Longrightarrow>
   find P (map (\<lambda>x. if k x = k v then v' else x) xs) = Some v'"
  by (induction xs) (auto split: if_splits)

lemma updateOrderStatus_success_iff:
  "(\<exists>d'. updateOrderStatus user orderId status d = Inr d') \<longleftrightarrow>
   (\<exists>order. owned_order user orderId d = Some order \<and> status \<in> order_successors (o_status order))"
  by (auto simp: updateOrderStatus_def owned_order_def Let_def
        dest: validTransitions_order_successors
        split: option.splits if_splits)
     (auto simp: validTransitions_order_def order_successors_def split: if_splits)

lemma updateOrderStatus_invalid:
  "owned_order user orderId d = Some order \<Longrightarrow> o_status order \<in> set order_statuses \<Longrightarrow>
   status \<notin> order_successors (o_status order) \<Longrightarrow>
   updateOrderStatus user orderId status d = Inl (InvalidTransition (o_status order) status)"
  by (auto simp: updateOrderStatus_def owned_order_def Let_def InvalidTransition_def
        dest: validTransitions_order_successors validTransitions_order_enum
        split: option.splits if_splits)

lemma updateOrderStatus_vendor:
  assumes "Vendor_findByUser (u_id user) d = Some vendor"
    and "updateOrderStatus user orderId status d = Inr d'"
  shows "Vendor_findByUser (u_id user) d' =
           Some (if status = ''completed''
                 then vendor\<lparr>v_completedBookings := v_completedBookings vendor + 1\<rparr>
                 else vendor)"
proof -
  have P: "v_user vendor = u_id user"
    using assms(1) unfolding Vendor_findByUser_def by (auto dest: find_Some_iff[THEN iffD1])
  have R: "find (\<lambda>v. v_user v = u_id user)
             (map (\<lambda>x. if v_id x = v_id vendor
                        then vendor\<lparr>v_completedBookings := v_completedBookings vendor + 1\<rparr>
                        else x) (vendors d)) =
           Some (vendor\<lparr>v_completedBookings := v_completedBookings vendor + 1\<rparr>)"
    using assms(1) P unfolding Vendor_findByUser_def by (intro find_replace) auto
  show ?thesis
    using assms R
    by (auto simp: updateOrderStatus_def Let_def Vendor_findByUser_def Order_save_def
          Vendor_save_def split: option.splits if_splits)
qed

lemma updateOrderStatus_order:
  assumes "owned_order user orderId d = Some order"
    and "updateOrderStatus user orderId status d = Inr d'"
  shows "owned_order user orderId d' = Some (order\<lparr>o_status := status\<rparr>)"
proof -
  obtain vendor where V: "Vendor_findByUser (u_id user) d = Some vendor"
    and O: "find (\<lambda>x. o_id x = orderId \<and> o_vendor x = v_id vendor) (orders d) = Some order"
    using assms(1) by (auto simp: owned_order_def split: option.splits)
  have P: "o_id order = orderId \<and> o_vendor order = v_id vendor"
    using O by (auto dest: find_Some_iff[THEN iffD1])
  have R: "find (\<lambda>x. o_id x = orderId \<and> o_vendor x = v_id vendor)
             (map (\<lambda>y. if o_id y = o_id order then order\<lparr>o_status := status\<rparr> else y) (orders d)) =
           Some (order\<lparr>o_status := status\<rparr>)"
    using O P by (intro find_replace) auto
  have V': "Vendor_findByUser (u_id user) d' =
           Some (if status = ''completed''
                 then vendor\<lparr>v_completedBookings := v_completedBookings vendor + 1\<rparr>
                 else vendor)"
    using V assms(2) by (rule updateOrderStatus_vendor)
  have D: "orders d' = map (\<lambda>y. if o_id y = o_id order then order\<lparr>o_status := status\<rparr> else y) (orders d)"
    using assms(2) V O
    by (auto simp: updateOrderStatus_def Let_def Order_save_def Vendor_save_def
          split: option.splits if_splits)
  show ?thesis
    using V' R D P by (auto simp: owned_order_def)
qed

lemma updateOrderStatus_from_completed:
  "owned_order user orderId d = Some order \<Longrightarrow> o_status order = ''completed'' \<Longrightarrow>
   updateOrderStatus user orderId status d = Inl (InvalidTransition ''completed'' status)"
  by (auto simp: updateOrderStatus_def owned_order_def Let_def InvalidTransition_def
        validTransitions_order_def split: option.splits)

lemma run_from_completed:
  "owned_order user orderId d = Some order \<Longrightarrow> o_status order = ''completed'' \<Longrightarrow>
   run (map (UpdateOrderStatus user orderId) sts) d = d"
  by (induction sts) (auto simp: updateOrderStatus_from_completed)

lemma run_order_completedBookings:
  "Vendor_findByUser (u_id user) d = Some vendor \<Longrightarrow>
   owned_order user orderId d = Some order \<Longrightarrow>
   \<exists>vendor'. Vendor_findByUser (u_id user) (run (map (UpdateOrderStatus user orderId) sts) d)
                = Some vendor' \<and>
              v_completedBookings vendor \<le> v_completedBookings vendor' \<and>
              v_completedBookings vendor' \<le> v_completedBookings vendor + 1"
proof (induction sts arbitrary: d vendor order)
  case Nil
  then show ?case by simp
next
  case (Cons st sts)
  show ?case
  proof (cases "updateOrderStatus user orderId st d")
    case (Inl e)
    then show ?thesis using Cons.IH[OF Cons.prems] by simp
  next
    case (Inr d')
    have V: "Vendor_findByUser (u_id user) d' =
           Some (if st = ''completed''
                 then vendor\<lparr>v_completedBookings := v_completedBookings vendor + 1\<rparr>
                 else vendor)"
      using Cons.prems(1) Inr by (rule updateOrderStatus_vendor)
    have O: "owned_order user orderId d' = Some (order\<lparr>o_status := st\<rparr>)"
      using Cons.prems(2) Inr by (rule updateOrderStatus_order)
    show ?thesis
    proof (cases "st = ''completed''")
      case True
      then have "run (map (UpdateOrderStatus user orderId) sts) d' = d'"
        using O by (intro run_from_completed) auto
      then show ?thesis using V True Inr by simp
    next
      case False
      then have V2: "Vendor_findByUser (u_id user) d' = Some vendor" using V by simp
      show ?thesis using Cons.IH[OF V2 O] Inr by simp
    qed
  qed
qed


lemma updateJobStatus_success_iff:
  "(\<exists>d'. updateJobStatus user jobId status reason now d = Inr d') \<longleftrightarrow>
   (\<exists>job. owned_job user jobId d = Some job \<and> status \<in> job_successors (j_status job))"
  by (auto simp: updateJobStatus_def owned_job_def Let_def
        dest: validTransitions_job_successors
        split: option.splits if_splits)
     (auto simp: validTransitions_job_def job_successors_def split: if_splits)

lemma updateJobStatus_invalid:
  "owned_job user jobId d = Some job \<Longrightarrow> j_status job \<in> set job_statuses \<Longrightarrow>
   status \<notin> job_successors (j_status job) \<Longrightarrow>
   updateJobStatus user jobId status reason now d = Inl (InvalidTransition (j_status job) status)"
  by (auto simp: updateJobStatus_def owned_job_def Let_def InvalidTransition_def
        dest: validTransitions_job_successors validTransitions_job_enum
        split: option.splits if_splits)

lemma refunded_no_successor:
  "''refunded'' \<notin> order_successors s" "''refunded'' \<notin> job_successors s"
  by (simp_all add: order_successors_def job_successors_def)

text \<open>
  Claim C1. A status update of an order succeeds exactly when the requested status is in
  the successor set that the specification gives for the order's current status, and a
  status update of a job likewise; every other request on a stored order or job fails
  with InvalidTransition. The tables of the controllers are the tables of the
  specification, no successor set contains \<open>refunded\<close>, and no status update into
  \<open>refunded\<close> succeeds.
\<close>

theorem status_update_follows_transition_tables:
  "((\<exists>d'. updateOrderStatus user orderId status d = Inr d') \<longleftrightarrow>
      (\<exists>order. owned_order user orderId d = Some order \<and>
                status \<in> order_successors (o_status order)))
   \<and> (\<forall>order. owned_order user orderId d = Some order \<and>
         o_status order \<in> set order_statuses \<and> status \<notin> order_successors (o_status order)
         \<longrightarrow> updateOrderStatus user orderId status d
               = Inl (InvalidTransition (o_status order) status))
   \<and> ((\<exists>d'. updateJobStatus wuser jobId status reason now d = Inr d') \<longleftrightarrow>
      (\<exists>job. owned_job wuser jobId d = Some job \<and> status \<in> job_successors (j_status job)))
   \<and> (\<forall>job. owned_job wuser jobId d = Some job \<and>
         j_status job \<in> set job_statuses \<and> status \<notin> job_successors (j_status job)
         \<longrightarrow> updateJobStatus wuser jobId status reason now d
               = Inl (InvalidTransition (j_status job) status))
   \<and> (\<forall>s xs. validTransitions_order s = Some xs \<longrightarrow> set xs = order_successors s)
   \<and> (\<forall>s xs. validTransitions_job s = Some xs \<longrightarrow> set xs = job_successors s)
   \<and> (\<forall>s. ''refunded'' \<notin> order_successors s \<and> ''refunded'' \<notin> job_successors s)
   \<and> (\<forall>d'. updateOrderStatus user orderId ''refunded'' d \<noteq> Inr d')"
proof -
  have "\<not> (\<exists>d'. updateOrderStatus user orderId ''refunded'' d = Inr d')"
    unfolding updateOrderStatus_success_iff by (simp add: refunded_no_successor)
  then show ?thesis
    using updateOrderStatus_success_iff[of user orderId status d]
      updateJobStatus_success_iff[of wuser jobId status reason now d]
    by (simp add: updateOrderStatus_invalid updateJobStatus_invalid refunded_no_successor
          validTransitions_order_successors validTransitions_job_successors)
qed

text \<open>
  The sample vendor confirms its pending order and may not decline it; the sample waiter
  declines its pending job and may not confirm it.
\<close>

theorem status_update_follows_transition_tables_witness:
  "(\<exists>d'. updateOrderStatus sample_vendor_user 100 ''confirmed''
            (sample_db [sample_order 100 20 ''pending''] [sample_job 200 ''pending''] []) = Inr d')
   \<and> updateJobStatus sample_waiter_user 200 ''confirmed'' None 5
        (sample_db [sample_order 100 20 ''pending''] [sample_job 200 ''pending''] [])
       = Inl (InvalidTransition ''pending'' ''confirmed'')
   \<and> (\<exists>d'. updateJobStatus sample_waiter_user 200 ''declined'' None 5
            (sample_db [sample_order 100 20 ''pending''] [sample_job 200 ''pending''] []) = Inr d')
   \<and> updateOrderStatus sample_vendor_user 100 ''declined''
        (sample_db [sample_order 100 20 ''pending''] [sample_job 200 ''pending''] [])
       = Inl (InvalidTransition ''pending'' ''declined'')"
  using status_update_follows_transition_tables
          [of sample_vendor_user 100 "''confirmed''" "sample_db [sample_order 100 20 ''pending''] [sample_job 200 ''pending''] []"
              sample_waiter_user 200 None 5]
        status_update_follows_transition_tables
          [of sample_vendor_user 100 "''declined''" "sample_db [sample_order 100 20 ''pending''] [sample_job 200 ''pending''] []"
              sample_waiter_user 200 None 5]
  by (simp add: owned_order_def owned_job_def Vendor_findByUser_def Waiter_findByUser_def
        sample_db_def sample_vendor_user_def sample_waiter_user_def sample_vendor_def
        sample_waiter_def sample_order_def sample_job_def order_successors_def
        job_successors_def order_statuses_def job_statuses_def)

text \<open>
  Claim C5. A status update into \<open>completed\<close> that succeeds adds exactly one to the
  \<open>completedBookings\<close> of the vendor that owns the order; every status update of an
  order that is \<open>completed\<close> fails; and over any sequence of status updates of one
  order the counter grows by one at most.
\<close>

theorem completedBookings_incremented_once:
  "(\<forall>vendor d'. Vendor_findByUser (u_id user) d = Some vendor \<and>
        updateOrderStatus user orderId ''completed'' d = Inr d'
        \<longrightarrow> Vendor_findByUser (u_id user) d'
              = Some (vendor\<lparr>v_completedBookings := v_completedBookings vendor + 1\<rparr>))
   \<and> (\<forall>order st. owned_order user orderId d = Some order \<and> o_status order = ''completed''
        \<longrightarrow> updateOrderStatus user orderId st d = Inl (InvalidTransition ''completed'' st))
   \<and> (\<forall>vendor order. Vendor_findByUser (u_id user) d = Some vendor \<and>
        owned_order user orderId d = Some order
        \<longrightarrow> (\<exists>vendor'. Vendor_findByUser (u_id user)
                            (run (map (UpdateOrderStatus user orderId) sts) d) = Some vendor' \<and>
                v_completedBookings vendor \<le> v_completedBookings vendor' \<and>
                v_completedBookings vendor' \<le> v_completedBookings vendor + 1))"
proof (intro conjI allI impI)
  fix vendor d'
  assume "Vendor_findByUser (u_id user) d = Some vendor \<and>
        updateOrderStatus user orderId ''completed'' d = Inr d'"
  then show "Vendor_findByUser (u_id user) d'
              = Some (vendor\<lparr>v_completedBookings := v_completedBookings vendor + 1\<rparr>)"
    using updateOrderStatus_vendor[of user d vendor orderId "''completed''" d'] by simp
next
  fix order st
  assume "owned_order user orderId d = Some order \<and> o_status order = ''completed''"
  then show "updateOrderStatus user orderId st d = Inl (InvalidTransition ''completed'' st)"
    by (simp add: updateOrderStatus_from_completed)
next
  fix vendor order
  assume "Vendor_findByUser (u_id user) d = Some vendor \<and>
        owned_order user orderId d = Some order"
  then show "\<exists>vendor'. Vendor_findByUser (u_id user)
                            (run (map (UpdateOrderStatus user orderId) sts) d) = Some vendor' \<and>
                v_completedBookings vendor \<le> v_completedBookings vendor' \<and>
                v_completedBookings vendor' \<le> v_completedBookings vendor + 1"
    using run_order_completedBookings[of user d vendor orderId order sts] by simp
qed

text \<open>The definitions of the sample data, for evaluation.\<close>

lemmas sample_defs =
  sample_db_def sample_vendor_user_def sample_waiter_user_def sample_customer_def
  sample_customer2_def sample_stranger_def sample_admin_def sample_users_def sample_vendor_def
  sample_waiter_def sample_order_def sample_job_def
  vendor_rating_def waiter_rating_def sample_body_def

text \<open>
  The sample order goes from \<open>in-progress\<close> to \<open>completed\<close>: the counter is 1, and
  stays 1 whatever is requested afterwards.
\<close>

theorem completedBookings_incremented_once_witness:
  "(\<exists>d'. updateOrderStatus sample_vendor_user 100 ''completed''
            (sample_db [sample_order 100 20 ''in-progress''] [] []) = Inr d' \<and>
          map v_completedBookings (vendors d') = [1] \<and>
          updateOrderStatus sample_vendor_user 100 ''cancelled'' d'
            = Inl (InvalidTransition ''completed'' ''cancelled''))
   \<and> map v_completedBookings
        (vendors (run (map (UpdateOrderStatus sample_vendor_user 100)
                         [''completed'', ''completed'', ''in-progress'', ''completed''])
                    (sample_db [sample_order 100 20 ''in-progress''] [] []))) = [1]"
  using completedBookings_incremented_once
          [of sample_vendor_user "sample_db [sample_order 100 20 ''in-progress''] [] []" 100
              "[''completed'', ''completed'', ''in-progress'', ''completed'']"]
  by (simp add: updateOrderStatus_def owned_order_def Vendor_findByUser_def Vendor_save_def
        Order_save_def validTransitions_order_def InvalidTransition_def Let_def sample_defs)

text \<open>
  Claim C4 says that a job taken through \<open>pending\<close>, \<open>accepted\<close>, \<open>in-progress\<close>,
  \<open>completed\<close> adds one to \<open>totalJobs\<close>. The controller adds one on \<open>accepted\<close>
  and one more on \<open>completed\<close>: on the sample job, a waiter that starts with no job
  ends with \<open>totalJobs = 2\<close> and \<open>completedJobs = 1\<close>.
\<close>

theorem job_normal_path_counts_totalJobs_twice:
  "map (\<lambda>w. (w_totalJobs w, w_completedJobs w))
     (waiters (run [UpdateJobStatus sample_waiter_user 200 ''accepted'' None 1,
                    UpdateJobStatus sample_waiter_user 200 ''in-progress'' None 2,
                    UpdateJobStatus sample_waiter_user 200 ''completed'' None 3]
                 (sample_db [sample_order 100 20 ''pending''] [sample_job 200 ''pending''] []))) = [(2, 1)]
   \<and> map j_status
     (jobs (run [UpdateJobStatus sample_waiter_user 200 ''accepted'' None 1,
                    UpdateJobStatus sample_waiter_user 200 ''in-progress'' None 2,
                    UpdateJobStatus sample_waiter_user 200 ''completed'' None 3]
                 (sample_db [sample_order 100 20 ''pending''] [sample_job 200 ''pending''] []))) = [''completed'']"
  by (simp add: updateJobStatus_def Waiter_findByUser_def Waiter_save_def Job_save_def
        validTransitions_job_def Let_def sample_defs)

section \<open>Properties of the rating aggregation\<close>

lemma map_replace_idem:
  "k v = i \<Longrightarrow>
   map (\<lambda>x. if k x = i then v else x) (map (\<lambda>x. if k x = i then v else x) xs) =
   map (\<lambda>x. if k x = i then v else x) xs"
  by (induction xs) auto

lemma Vendor_save_idem: "Vendor_save v (Vendor_save v d) = Vendor_save v d"
  by (simp add: Vendor_save_def map_replace_idem)

lemma Waiter_save_idem: "Waiter_save w (Waiter_save w d) = Waiter_save w d"
  by (simp add: Waiter_save_def map_replace_idem)

lemma vendor_stats_Vendor_save: "vendor_stats i (Vendor_save v d) = vendor_stats i d"
  by (simp add: vendor_stats_def Vendor_save_def)

lemma waiter_stats_Waiter_save: "waiter_stats i (Waiter_save w d) = waiter_stats i d"
  by (simp add: waiter_stats_def Waiter_save_def)

lemma Vendor_updateRating_idem:
  "Vendor_updateRating v d = (v', d') \<Longrightarrow> Vendor_updateRating v' d' = (v', d')"
  by (auto simp: Vendor_updateRating_def Let_def Vendor_save_idem vendor_stats_Vendor_save
        split: list.splits)

lemma Waiter_updateRating_idem:
  "Waiter_updateRating w d = (w', d') \<Longrightarrow> Waiter_updateRating w' d' = (w', d')"
  by (auto simp: Waiter_updateRating_def Let_def Waiter_save_idem waiter_stats_Waiter_save
        split: list.splits)

lemma Vendor_updateRating_shape:
  "\<exists>v'. Vendor_updateRating v d = (v', Vendor_save v' d) \<and> v_id v' = v_id v"
  by (simp add: Vendor_updateRating_def Let_def split: list.splits)

lemma Waiter_updateRating_shape:
  "\<exists>w'. Waiter_updateRating w d = (w', Waiter_save w' d) \<and> w_id w' = w_id w"
  by (simp add: Waiter_updateRating_def Let_def split: list.splits)

lemma recompute_vendor_frame:
  "ratings (recompute_vendor vid d) = ratings d"
  "orders (recompute_vendor vid d) = orders d"
  "jobs (recompute_vendor vid d) = jobs d"
  "waiters (recompute_vendor vid d) = waiters d"
  by (simp_all add: recompute_vendor_def Vendor_updateRating_def Vendor_save_def Let_def
        split: option.splits)

lemma recompute_waiter_frame:
  "ratings (recompute_waiter wid d) = ratings d"
  "orders (recompute_waiter wid d) = orders d"
  "jobs (recompute_waiter wid d) = jobs d"
  "vendors (recompute_waiter wid d) = vendors d"
  by (simp_all add: recompute_waiter_def Waiter_updateRating_def Waiter_save_def Let_def
        split: option.splits)

lemma recompute_vendor_fix:
  assumes "Vendor_findById vid (recompute_vendor vid d) = Some v'"
  shows "Vendor_updateRating v' (recompute_vendor vid d) = (v', recompute_vendor vid d)"
proof (cases "Vendor_findById vid d")
  case None
  then show ?thesis using assms by (simp add: recompute_vendor_def)
next
  case (Some v)
  obtain u where U: "Vendor_updateRating v d = (u, Vendor_save u d)" "v_id u = v_id v"
    using Vendor_updateRating_shape by blast
  have I: "v_id v = vid"
    using Some unfolding Vendor_findById_def by (auto dest: find_Some_iff[THEN iffD1])
  have R: "recompute_vendor vid d = Vendor_save u d"
    using Some U by (simp add: recompute_vendor_def)
  have "find (\<lambda>x. v_id x = vid) (map (\<lambda>x. if v_id x = v_id v then u else x) (vendors d))
          = Some u"
    using Some U(2) I unfolding Vendor_findById_def by (intro find_replace) auto
  then have "Vendor_findById vid (Vendor_save u d) = Some u"
    using U(2) by (simp add: Vendor_findById_def Vendor_save_def)
  then have "v' = u" using assms R by simp
  then show ?thesis using Vendor_updateRating_idem[OF U(1)] R by simp
qed

lemma recompute_waiter_fix:
  assumes "Waiter_findById wid (recompute_waiter wid d) = Some w'"
  shows "Waiter_updateRating w' (recompute_waiter wid d) = (w', recompute_waiter wid d)"
proof (cases "Waiter_findById wid d")
  case None
  then show ?thesis using assms by (simp add: recompute_waiter_def)
next
  case (Some w)
  obtain u where U: "Waiter_updateRating w d = (u, Waiter_save u d)" "w_id u = w_id w"
    using Waiter_updateRating_shape by blast
  have I: "w_id w = wid"
    using Some unfolding Waiter_findById_def by (auto dest: find_Some_iff[THEN iffD1])
  have R: "recompute_waiter wid d = Waiter_save u d"
    using Some U by (simp add: recompute_waiter_def)
  have "find (\<lambda>x. w_id x = wid) (map (\<lambda>x. if w_id x = w_id w then u else x) (waiters d))
          = Some u"
    using Some U(2) I unfolding Waiter_findById_def by (intro find_replace) auto
  then have "Waiter_findById wid (Waiter_save u d) = Some u"
    using U(2) by (simp add: Waiter_findById_def Waiter_save_def)
  then have "w' = u" using assms R by simp
  then show ?thesis using Waiter_updateRating_idem[OF U(1)] R by simp
qed

lemma recompute_vendor_idem:
  "recompute_vendor vid (recompute_vendor vid d) = recompute_vendor vid d"
proof (cases "Vendor_findById vid (recompute_vendor vid d)")
  case None
  then show ?thesis by (simp add: recompute_vendor_def[of vid "recompute_vendor vid d"])
next
  case (Some v')
  then show ?thesis
    using recompute_vendor_fix[OF Some]
    by (simp add: recompute_vendor_def[of vid "recompute_vendor vid d"])
qed

lemma recompute_waiter_idem:
  "recompute_waiter wid (recompute_waiter wid d) = recompute_waiter wid d"
proof (cases "Waiter_findById wid (recompute_waiter wid d)")
  case None
  then show ?thesis by (simp add: recompute_waiter_def[of wid "recompute_waiter wid d"])
next
  case (Some w')
  then show ?thesis
    using recompute_waiter_fix[OF Some]
    by (simp add: recompute_waiter_def[of wid "recompute_waiter wid d"])
qed

lemma post_save_recompute:
  "post_save r d =
     (case r_waiter r of
        None \<Rightarrow> (case r_vendor r of None \<Rightarrow> d | Some vid \<Rightarrow> recompute_vendor vid d)
      | Some wid \<Rightarrow>
          recompute_waiter wid
            (case r_vendor r of None \<Rightarrow> d | Some vid \<Rightarrow> recompute_vendor vid d))"
  by (simp add: post_save_def recompute_vendor_def recompute_waiter_def Let_def
        split: option.splits)

lemma pre_save_None_iff: "pre_save r = None \<longleftrightarrow> exactly_one_target r"
  by (auto simp: pre_save_def exactly_one_target_def)

text \<open>
  Claim C10. Recomputing the aggregates of a profile twice in a row, over the same stored
  ratings, leaves the profile and the database as the first recomputation left them, for
  vendors (\<open>averageRating\<close>, \<open>totalRatings\<close>) and for waiters (\<open>averageRating\<close>,
  \<open>attitudeRating\<close>, \<open>totalRatings\<close>).
\<close>

theorem updateRating_idempotent:
  "(case Vendor_updateRating v d of (v', d') \<Rightarrow> Vendor_updateRating v' d' = (v', d')) \<and>
   (case Waiter_updateRating w d of (w', d') \<Rightarrow> Waiter_updateRating w' d' = (w', d'))"
  by (auto simp: Vendor_updateRating_idem Waiter_updateRating_idem split: prod.splits)

lemma ceil_tenth_bounds:
  "x \<le> ceil_tenth (Some x) \<and> ceil_tenth (Some x) < x + 1 / 10"
proof -
  have "of_int \<lceil>x * 10\<rceil> - 1 < x * 10 \<and> x * 10 \<le> of_int \<lceil>x * 10\<rceil>"
    by (rule ceiling_correct)
  then show ?thesis by (simp add: ceil_tenth_def field_simps)
qed

lemma avg_mean: "xs \<noteq> [] \<Longrightarrow> avg xs = Some (mean xs)"
  by (simp add: avg_def mean_def)

lemma Waiter_updateRating_average:
  assumes "ms = filter (\<lambda>r. r_waiter r = Some (w_id w)) (ratings d)" and "ms \<noteq> []"
  shows "w_averageRating (fst (Waiter_updateRating w d)) = ceil_tenth (Some (mean (map r_rating ms)))"
    and "w_totalRatings (fst (Waiter_updateRating w d)) = int (length ms)"
  using assms
  by (simp_all add: Waiter_updateRating_def waiter_stats_def Let_def avg_mean)

lemma Vendor_updateRating_average:
  assumes "ms = filter (\<lambda>r. r_vendor r = Some (v_id v)) (ratings d)" and "ms \<noteq> []"
  shows "v_averageRating (fst (Vendor_updateRating v d)) = ceil_tenth (Some (mean (map r_rating ms)))"
    and "v_totalRatings (fst (Vendor_updateRating v d)) = int (length ms)"
  using assms
  by (simp_all add: Vendor_updateRating_def vendor_stats_def Let_def avg_mean)

lemma ceil_tenth_Some: "ceil_tenth (Some x) = of_int \<lceil>x * 10\<rceil> / 10"
  by (simp add: ceil_tenth_def)

text \<open>
  Claim C7. A waiter whose ratings are 4 and 5 gets \<open>averageRating = 4.5\<close>, and one
  whose ratings are 4, 4 and 5 gets \<open>4.4\<close>, the mean \<open>13/3\<close> rounded up at the tenths
  digit. In general the stored average of a rated profile is the ceiling of ten times
  the mean, divided by ten: it is at least the mean and less than the mean plus a tenth.
\<close>

theorem average_rating_rounded_up_to_tenth:
  "w_averageRating (fst (Waiter_updateRating sample_waiter
      (sample_db [] [] [waiter_rating 1 200 4 True, waiter_rating 2 201 5 True]))) = 9 / 2
   \<and> w_averageRating (fst (Waiter_updateRating sample_waiter
      (sample_db [] []
         [waiter_rating 1 200 4 True, waiter_rating 2 201 4 True, waiter_rating 3 202 5 True])))
       = 22 / 5
   \<and> (\<forall>ms. ms = filter (\<lambda>r. r_waiter r = Some (w_id w)) (ratings d) \<and> ms \<noteq> [] \<longrightarrow>
         w_averageRating (fst (Waiter_updateRating w d))
           = of_int \<lceil>mean (map r_rating ms) * 10\<rceil> / 10 \<and>
         mean (map r_rating ms) \<le> w_averageRating (fst (Waiter_updateRating w d)) \<and>
         w_averageRating (fst (Waiter_updateRating w d)) < mean (map r_rating ms) + 1 / 10)
   \<and> (\<forall>ms. ms = filter (\<lambda>r. r_vendor r = Some (v_id v)) (ratings d) \<and> ms \<noteq> [] \<longrightarrow>
         v_averageRating (fst (Vendor_updateRating v d))
           = of_int \<lceil>mean (map r_rating ms) * 10\<rceil> / 10 \<and>
         mean (map r_rating ms) \<le> v_averageRating (fst (Vendor_updateRating v d)) \<and>
         v_averageRating (fst (Vendor_updateRating v d)) < mean (map r_rating ms) + 1 / 10)"
proof (intro conjI allI impI)
  show "w_averageRating (fst (Waiter_updateRating sample_waiter
      (sample_db [] [] [waiter_rating 1 200 4 True, waiter_rating 2 201 5 True]))) = 9 / 2"
    by (simp add: Waiter_updateRating_def waiter_stats_def Let_def avg_def ceil_tenth_def
          sample_defs)
  show "w_averageRating (fst (Waiter_updateRating sample_waiter
      (sample_db [] []
         [waiter_rating 1 200 4 True, waiter_rating 2 201 4 True, waiter_rating 3 202 5 True])))
       = 22 / 5"
    by (simp add: Waiter_updateRating_def waiter_stats_def Let_def avg_def ceil_tenth_def
          sample_defs ceiling_eq_iff)
next
  fix ms
  assume A: "ms = filter (\<lambda>r. r_waiter r = Some (w_id w)) (ratings d) \<and> ms \<noteq> []"
  then have A1: "ms = filter (\<lambda>r. r_waiter r = Some (w_id w)) (ratings d)"
    and A2: "ms \<noteq> []" by blast+
  have E: "w_averageRating (fst (Waiter_updateRating w d))
           = ceil_tenth (Some (mean (map r_rating ms)))"
    by (rule Waiter_updateRating_average(1)[OF A1 A2])
  show "w_averageRating (fst (Waiter_updateRating w d))
           = of_int \<lceil>mean (map r_rating ms) * 10\<rceil> / 10"
    by (simp only: E ceil_tenth_Some)
  show "mean (map r_rating ms) \<le> w_averageRating (fst (Waiter_updateRating w d))"
    by (simp only: E ceil_tenth_bounds)
  show "w_averageRating (fst (Waiter_updateRating w d)) < mean (map r_rating ms) + 1 / 10"
    by (simp only: E ceil_tenth_bounds)
next
  fix ms
  assume A: "ms = filter (\<lambda>r. r_vendor r = Some (v_id v)) (ratings d) \<and> ms \<noteq> []"
  then have A1: "ms = filter (\<lambda>r. r_vendor r = Some (v_id v)) (ratings d)"
    and A2: "ms \<noteq> []" by blast+
  have E: "v_averageRating (fst (Vendor_updateRating v d))
           = ceil_tenth (Some (mean (map r_rating ms)))"
    by (rule Vendor_updateRating_average(1)[OF A1 A2])
  show "v_averageRating (fst (Vendor_updateRating v d))
           = of_int \<lceil>mean (map r_rating ms) * 10\<rceil> / 10"
    by (simp only: E ceil_tenth_Some)
  show "mean (map r_rating ms) \<le> v_averageRating (fst (Vendor_updateRating v d))"
    by (simp only: E ceil_tenth_bounds)
  show "v_averageRating (fst (Vendor_updateRating v d)) < mean (map r_rating ms) + 1 / 10"
    by (simp only: E ceil_tenth_bounds)
qed

text \<open>
  The general statement at the sample vendor and the sample waiter with ratings 4, 4
  and 5: the mean is \<open>13/3\<close> and the stored average is \<open>22/5\<close>, where rounding half
  up would give \<open>43/10\<close>.
\<close>

theorem average_rating_rounded_up_to_tenth_witness:
  "mean [4, 4, 5] = 13 / 3
   \<and> v_averageRating (fst (Vendor_updateRating sample_vendor
        (sample_db [] []
           [vendor_rating 1 20 100 4 True, vendor_rating 2 21 101 4 True,
            vendor_rating 3 22 102 5 True]))) = 22 / 5
   \<and> w_averageRating (fst (Waiter_updateRating sample_waiter
        (sample_db [] []
           [waiter_rating 1 200 4 True, waiter_rating 2 201 4 True,
            waiter_rating 3 202 5 True]))) = 22 / 5"
  using average_rating_rounded_up_to_tenth
          [of sample_waiter
              "sample_db [] []
                 [waiter_rating 1 200 4 True, waiter_rating 2 201 4 True,
                  waiter_rating 3 202 5 True]"
              sample_vendor]
        average_rating_rounded_up_to_tenth
          [of sample_waiter
              "sample_db [] []
           [vendor_rating 1 20 100 4 True, vendor_rating 2 21 101 4 True,
            vendor_rating 3 22 102 5 True]"
              sample_vendor]
  by (simp add: mean_def sample_defs ceiling_eq_iff)

text \<open>
  Claim C2 says that a rating with \<open>isActive = false\<close> is left out of the
  recomputation. The pipelines of \<open>updateRating\<close> match on the profile alone: with an
  active rating of 5 and a retracted rating of 1 the recomputed average is 3 and
  \<open>totalRatings\<close> is 2, for a vendor and for a waiter, and so it is after two
  customers rate the sample vendor 5 and 1 and the second rating is retracted.
\<close>

theorem retracted_rating_still_counted:
  "(case Vendor_updateRating sample_vendor
           (sample_db [] [] [vendor_rating 1 20 100 5 True, vendor_rating 2 21 101 1 False])
    of (v, d) \<Rightarrow> (v_averageRating v, v_totalRatings v)) = (3, 2)
   \<and> (case Waiter_updateRating sample_waiter
           (sample_db [] [] [waiter_rating 1 200 5 True, waiter_rating 2 201 1 False])
    of (w, d) \<Rightarrow> (w_averageRating w, w_totalRatings w)) = (3, 2)
   \<and> map (\<lambda>v. (v_averageRating v, v_totalRatings v))
       (vendors (run [RateVendor sample_customer 1 (sample_body 5),
                      RateVendor sample_customer2 1 (sample_body 1),
                      DeleteRating sample_admin 2]
                   (sample_db [sample_order 100 20 ''completed'',
                               sample_order 101 21 ''completed''] [] []))) = [(3, 2)]
   \<and> map (\<lambda>r. (r_rating r, r_isActive r))
       (ratings (run [RateVendor sample_customer 1 (sample_body 5),
                      RateVendor sample_customer2 1 (sample_body 1),
                      DeleteRating sample_admin 2]
                   (sample_db [sample_order 100 20 ''completed'',
                               sample_order 101 21 ''completed''] [] [])))
       = [(5, True), (1, False)]"
  by (simp add: Vendor_updateRating_def Waiter_updateRating_def vendor_stats_def
        waiter_stats_def avg_def ceil_tenth_def Let_def rateVendor_def deleteRating_def
        Rating_create_def Rating_save_def Rating_validate_def pre_save_def post_save_def
        unique_violation_def new_ObjectId_def Vendor_findById_def Waiter_findById_def
        Rating_findById_def completed_order_def vendor_rating_of_def Vendor_save_def
        Waiter_save_def Order_save_def List.map_filter_def canDelete_def sample_defs)

section \<open>Properties of the rating controllers\<close>

lemma post_save_vendor_only:
  "r_vendor r = Some vid \<Longrightarrow> r_waiter r = None \<Longrightarrow> post_save r d = recompute_vendor vid d"
  by (simp add: post_save_recompute)

lemma post_save_waiter_only:
  "r_vendor r = None \<Longrightarrow> r_waiter r = Some wid \<Longrightarrow> post_save r d = recompute_waiter wid d"
  by (simp add: post_save_recompute)

lemma post_save_frame:
  "ratings (post_save r d) = ratings d"
  "orders (post_save r d) = orders d"
  "jobs (post_save r d) = jobs d"
  by (simp_all add: post_save_recompute recompute_vendor_frame recompute_waiter_frame
        split: option.splits)

lemma Rating_save_Inr:
  "Rating_save r d = Inr d' \<Longrightarrow>
   exactly_one_target r \<and> Rating_validate r = None \<and>
   d' = post_save r
          (d\<lparr>ratings := map (\<lambda>x. if r_id x = r_id r then r else x) (ratings d)\<rparr>)"
  by (auto simp: Rating_save_def pre_save_None_iff[symmetric] split: option.splits if_splits)

lemma Rating_create_Inr:
  "Rating_create doc d = Inr (r, d') \<Longrightarrow>
   r = doc\<lparr>r_id := new_ObjectId (ratings d)\<rparr> \<and> exactly_one_target r \<and>
   Rating_validate r = None \<and> d' = post_save r (d\<lparr>ratings := ratings d @ [r]\<rparr>)"
  by (auto simp: Rating_create_def Let_def pre_save_None_iff[symmetric]
        split: option.splits if_splits)

lemma hex_char_not_brace: "hex_char k \<noteq> CHR ''}''"
proof -
  have "k mod 16 < length ''0123456789abcdef''" by simp
  then have "hex_char k \<in> set ''0123456789abcdef''"
    unfolding hex_char_def by (rule nth_mem)
  then show ?thesis by auto
qed

lemma last_hex_digits: "0 < n \<Longrightarrow> last (hex_digits n i) = hex_char i"
  by (cases n) simp_all

lemma toString_differ: "(Document_toString doc = ObjectId_toString i) = False"
proof -
  have "last (ObjectId_toString i) = hex_char i"
    unfolding ObjectId_toString_def by (rule last_hex_digits) simp
  moreover have "last (Document_toString doc) = CHR ''}''"
    unfolding Document_toString_def by simp
  ultimately show ?thesis using hex_char_not_brace[of i] by auto
qed

lemma canDelete_True_iff: "canDelete user rating d = Inr True \<longleftrightarrow> u_role user = ''admin''"
  by (simp add: canDelete_def toString_differ split: option.splits)

lemma deleteRating_recompute:
  "deleteRating user rid d =
     (case Rating_findById rid d of
        None \<Rightarrow> Inl (ErrorResponse ''Rating not found'' 404)
      | Some rating \<Rightarrow>
     (case canDelete user rating d of
        Inl e \<Rightarrow> Inl e
      | Inr False \<Rightarrow> Inl NotAuthorized_delete
      | Inr True \<Rightarrow>
     (case Rating_save (rating\<lparr>r_isActive := False\<rparr>) d of
        Inl e \<Rightarrow> Inl e
      | Inr d1 \<Rightarrow>
          Inr (case r_waiter rating of
                 None \<Rightarrow> (case r_vendor rating of
                             None \<Rightarrow> d1 | Some vid \<Rightarrow> recompute_vendor vid d1)
               | Some wid \<Rightarrow>
                   recompute_waiter wid
                     (case r_vendor rating of
                        None \<Rightarrow> d1 | Some vid \<Rightarrow> recompute_vendor vid d1)))))"
  unfolding deleteRating_def recompute_vendor_def recompute_waiter_def Let_def
  by (rule refl)

lemma deleteRating_Inr:
  assumes "deleteRating user rid d = Inr d'"
  shows "\<exists>rating. Rating_findById rid d = Some rating \<and> r_id rating = rid \<and>
           u_role user = ''admin'' \<and> exactly_one_target rating \<and>
           d' = (case r_vendor rating of
                   Some vid \<Rightarrow> recompute_vendor vid (retract rating d)
                 | None \<Rightarrow>
                     (case r_waiter rating of
                        Some wid \<Rightarrow> recompute_waiter wid (retract rating d)
                      | None \<Rightarrow> retract rating d))"
proof -
  obtain rating d1 where F: "Rating_findById rid d = Some rating"
    and C: "canDelete user rating d = Inr True"
    and S: "Rating_save (rating\<lparr>r_isActive := False\<rparr>) d = Inr d1"
    and D: "d' = (case r_waiter rating of
                 None \<Rightarrow> (case r_vendor rating of
                             None \<Rightarrow> d1 | Some vid \<Rightarrow> recompute_vendor vid d1)
               | Some wid \<Rightarrow>
                   recompute_waiter wid
                     (case r_vendor rating of
                        None \<Rightarrow> d1 | Some vid \<Rightarrow> recompute_vendor vid d1))"
    using assms unfolding deleteRating_recompute
    by (auto split: option.splits if_splits sum.splits bool.splits)
  have A: "u_role user = ''admin''"
    using C by (simp add: canDelete_True_iff)
  have I: "r_id rating = rid"
    using F unfolding Rating_findById_def by (auto dest: find_Some_iff[THEN iffD1])
  have E: "exactly_one_target rating"
    using Rating_save_Inr[OF S] by (simp add: exactly_one_target_def)
  have D1: "d1 = post_save (rating\<lparr>r_isActive := False\<rparr>) (retract rating d)"
    using Rating_save_Inr[OF S] by (simp add: retract_def)
  show ?thesis
  proof (cases "r_vendor rating")
    case None
    then obtain wid where W: "r_waiter rating = Some wid"
      using E by (auto simp: exactly_one_target_def)
    have "d1 = recompute_waiter wid (retract rating d)"
      using D1 None W by (simp add: post_save_waiter_only)
    then have "d' = recompute_waiter wid (retract rating d)"
      using D None W by (simp add: recompute_waiter_idem)
    then show ?thesis using F I A E None W by simp
  next
    case (Some vid)
    then have W: "r_waiter rating = None"
      using E by (auto simp: exactly_one_target_def)
    have "d1 = recompute_vendor vid (retract rating d)"
      using D1 Some W by (simp add: post_save_vendor_only)
    then have "d' = recompute_vendor vid (retract rating d)"
      using D Some W by (simp add: recompute_vendor_idem)
    then show ?thesis using F I A E Some W by simp
  qed
qed

lemma deleteRating_ratings:
  assumes "deleteRating user rid d = Inr d'"
  shows "\<exists>rating. Rating_findById rid d = Some rating \<and>
           ratings d' = map (\<lambda>x. if r_id x = rid then rating\<lparr>r_isActive := False\<rparr> else x)
                          (ratings d) \<and>
           Rating_findById rid d' = Some (rating\<lparr>r_isActive := False\<rparr>) \<and>
           orders d' = orders d \<and> jobs d' = jobs d"
proof -
  obtain rating where F: "Rating_findById rid d = Some rating" and I: "r_id rating = rid"
    and D: "d' = (case r_vendor rating of
                   Some vid \<Rightarrow> recompute_vendor vid (retract rating d)
                 | None \<Rightarrow>
                     (case r_waiter rating of
                        Some wid \<Rightarrow> recompute_waiter wid (retract rating d)
                      | None \<Rightarrow> retract rating d))"
    using deleteRating_Inr[OF assms] by blast
  have R: "ratings d' = map (\<lambda>x. if r_id x = rid then rating\<lparr>r_isActive := False\<rparr> else x)
                          (ratings d)"
    and O: "orders d' = orders d" and J: "jobs d' = jobs d"
    using D I
    by (simp_all add: retract_def recompute_vendor_frame recompute_waiter_frame
          split: option.splits)
  have "find (\<lambda>x. r_id x = rid)
          (map (\<lambda>x. if r_id x = r_id rating then rating\<lparr>r_isActive := False\<rparr> else x)
             (ratings d)) = Some (rating\<lparr>r_isActive := False\<rparr>)"
    using F I unfolding Rating_findById_def by (intro find_replace) auto
  then have "Rating_findById rid d' = Some (rating\<lparr>r_isActive := False\<rparr>)"
    using R I by (simp add: Rating_findById_def)
  then show ?thesis using F R O J by blast
qed

lemma deleteRating_not_admin:
  "Rating_findById rid d = Some rating \<Longrightarrow> u_role user \<noteq> ''admin'' \<Longrightarrow>
   deleteRating user rid d =
     (case populated_reviewer rating d of
        None \<Rightarrow> Inl TypeError
      | Some reviewer \<Rightarrow> Inl NotAuthorized_delete)"
  by (simp add: deleteRating_def canDelete_def toString_differ split: option.splits)

text \<open>The definitions of the rating model, for evaluation.\<close>

lemmas eval_defs =
  rateVendor_def rateWaiter_def deleteRating_def reportRating_def respondToRating_def
  canDelete_def populated_reviewer_def toString_differ vendorProfile_def
  Rating_create_def Rating_save_def Rating_validate_def pre_save_def post_save_def
  unique_violation_def new_ObjectId_def Vendor_findById_def Waiter_findById_def
  Rating_findById_def Order_findById_def Job_findById_def completed_order_def
  completed_job_def vendor_rating_of_def waiter_rating_of_def Vendor_save_def
  Waiter_save_def Order_save_def Job_save_def Vendor_updateRating_def
  Waiter_updateRating_def vendor_stats_def waiter_stats_def avg_def ceil_tenth_def
  List.map_filter_def Let_def NotAuthorized_delete_def NotEligible_vendor_def
  NotEligible_waiter_def DuplicateRating_vendor_def DuplicateRating_waiter_def

text \<open>
  Claim C8 says that the original reviewer of a rating may retract it. The controller
  compares the string form of \<open>rating.reviewer\<close>, which the pre-find hook of the schema
  has populated with the User document, with the string form of the actor's id, and the
  two never agree: the sample customer, reviewer of the stored rating of the sample
  vendor, gets the 403 error and the rating stays active. Only an administrator passes
  the check; the retraction is then the soft delete that the claim describes (the rating
  stays stored, inactive and with its response, and is found by its id).
\<close>

theorem reviewer_cannot_retract_own_rating:
  "r_reviewer (vendor_rating 1 20 100 4 True) = u_id sample_customer
   \<and> deleteRating sample_customer 1
       (sample_db [sample_order 100 20 ''completed''] []
          [(vendor_rating 1 20 100 4 True)\<lparr>r_response := Some (''Thanks'', 7)\<rparr>])
     = Inl NotAuthorized_delete
   \<and> map (\<lambda>r. (r_id r, r_isActive r, r_response r))
       (ratings (run [RateVendor sample_customer 1 (sample_body 4),
                      DeleteRating sample_customer 1]
                   (sample_db [sample_order 100 20 ''completed''] [] [])))
     = [(1, True, None)]
   \<and> map (\<lambda>r. (r_id r, r_isActive r, r_response r))
       (ratings (run [DeleteRating sample_admin 1]
          (sample_db [sample_order 100 20 ''completed''] []
             [(vendor_rating 1 20 100 4 True)\<lparr>r_response := Some (''Thanks'', 7)\<rparr>])))
     = [(1, False, Some (''Thanks'', 7))]"
  by (simp add: eval_defs sample_defs)

section \<open>Properties of rateVendor and rateWaiter\<close>

lemma find_None_Bex: "find P xs = None \<longleftrightarrow> \<not> (\<exists>x\<in>set xs. P x)"
  by (auto simp: find_None_iff)

lemma find_Some_Bex: "find P xs \<noteq> None \<longleftrightarrow> (\<exists>x\<in>set xs. P x)"
  by (auto simp: find_None_iff)

lemma Rating_create_not_ErrorResponse: "Rating_create doc d \<noteq> Inl (ErrorResponse m c)"
  by (auto simp: Rating_create_def Rating_validate_def pre_save_def Let_def
        split: option.splits if_splits)


lemma rateVendor_Duplicate_iff:
  assumes "Vendor_findById vid d = Some v" and "completed_order user vid d = Some x"
  shows "rateVendor user vid body d = Inl DuplicateRating_vendor \<longleftrightarrow>
         (\<exists>r\<in>set (ratings d). r_reviewer r = u_id user \<and> r_vendor r = Some vid \<and>
                                r_order r = Some (o_id x))"
proof (cases "vendor_rating_of user vid (o_id x) d")
  case None
  then have N: "\<not> (\<exists>r\<in>set (ratings d). r_reviewer r = u_id user \<and> r_vendor r = Some vid \<and>
                                r_order r = Some (o_id x))"
    by (simp add: vendor_rating_of_def find_None_Bex)
  have "rateVendor user vid body d \<noteq> Inl DuplicateRating_vendor"
    using assms None Rating_create_not_ErrorResponse
    by (auto simp: rateVendor_def DuplicateRating_vendor_def split: sum.splits)
  then show ?thesis using N by simp
next
  case (Some r)
  then have E: "\<exists>r\<in>set (ratings d). r_reviewer r = u_id user \<and> r_vendor r = Some vid \<and>
                                r_order r = Some (o_id x)"
    using find_Some_Bex[of "\<lambda>r. r_reviewer r = u_id user \<and> r_vendor r = Some vid \<and>
        r_order r = Some (o_id x)" "ratings d"]
    by (simp add: vendor_rating_of_def)
  show ?thesis using assms Some E by (simp add: rateVendor_def)
qed

lemma completed_job_None: "completed_job user wid d = None"
  by (simp add: completed_job_def vendorProfile_def find_None_iff)

lemma rateWaiter_stored:
  "Waiter_findById wid d = Some w \<Longrightarrow> rateWaiter user wid body d = Inl NotEligible_waiter"
  by (simp add: rateWaiter_def completed_job_None)

lemma rateWaiter_never_Inr: "rateWaiter user wid body d \<noteq> Inr d'"
  by (simp add: rateWaiter_def completed_job_None split: option.splits)

lemma recompute_vendor_find:
  assumes "Vendor_findById vid d = Some v"
  shows "Vendor_findById vid (recompute_vendor vid d) = Some (fst (Vendor_updateRating v d))"
proof -
  obtain u where U: "Vendor_updateRating v d = (u, Vendor_save u d)" "v_id u = v_id v"
    using Vendor_updateRating_shape by blast
  have I: "v_id v = vid"
    using assms unfolding Vendor_findById_def by (auto dest: find_Some_iff[THEN iffD1])
  have "find (\<lambda>x. v_id x = vid) (map (\<lambda>x. if v_id x = v_id v then u else x) (vendors d))
          = Some u"
    using assms U(2) I unfolding Vendor_findById_def by (intro find_replace) auto
  then show ?thesis
    using assms U by (simp add: recompute_vendor_def Vendor_findById_def Vendor_save_def)
qed

lemma rateVendor_Inr:
  assumes "rateVendor user vid body d = Inr d'"
  shows "\<exists>v x. Vendor_findById vid d = Some v \<and> completed_order user vid d = Some x \<and>
           vendor_rating_of user vid (o_id x) d = None \<and>
           1 \<le> b_rating body \<and> b_rating body \<le> 5 \<and>
           d' = Order_save (x\<lparr>o_isRated := True\<rparr>)
                  (recompute_vendor vid
                     (d\<lparr>ratings := ratings d @
                         [\<lparr>r_id = new_ObjectId (ratings d), r_reviewer = u_id user,
                           r_vendor = Some vid, r_waiter = None, r_order = Some (o_id x),
                           r_job = None, r_rating = b_rating body, r_attitudeRating = None,
                           r_review = b_review body, r_isActive = True, r_response = None,
                           r_isReported = False, r_reportReason = None\<rparr>]\<rparr>))"
proof -
  obtain v x r d1 where V: "Vendor_findById vid d = Some v"
    and X: "completed_order user vid d = Some x"
    and N: "vendor_rating_of user vid (o_id x) d = None"
    and C: "Rating_create
             \<lparr>r_id = 0, r_reviewer = u_id user, r_vendor = Some vid, r_waiter = None,
              r_order = Some (o_id x), r_job = None, r_rating = b_rating body,
              r_attitudeRating = None, r_review = b_review body, r_isActive = True,
              r_response = None, r_isReported = False, r_reportReason = None\<rparr> d = Inr (r, d1)"
    and D: "d' = Order_save (x\<lparr>o_isRated := True\<rparr>) d1"
    using assms unfolding rateVendor_def
    by (auto split: option.splits sum.splits prod.splits)
  have R: "r = \<lparr>r_id = new_ObjectId (ratings d), r_reviewer = u_id user,
                           r_vendor = Some vid, r_waiter = None, r_order = Some (o_id x),
                           r_job = None, r_rating = b_rating body, r_attitudeRating = None,
                           r_review = b_review body, r_isActive = True, r_response = None,
                           r_isReported = False, r_reportReason = None\<rparr>"
    and VA: "Rating_validate r = None"
    and D1: "d1 = post_save r (d\<lparr>ratings := ratings d @ [r]\<rparr>)"
    using Rating_create_Inr[OF C] by auto
  have B: "1 \<le> b_rating body \<and> b_rating body \<le> 5"
    using VA R by (auto simp: Rating_validate_def split: if_splits)
  have "d1 = recompute_vendor vid (d\<lparr>ratings := ratings d @ [r]\<rparr>)"
    using D1 R by (simp add: post_save_vendor_only)
  then show ?thesis using V X N B D R by simp
qed

lemma Vendor_updateRating_Order_save_commute:
  "Vendor_updateRating v (Order_save x d) =
     (fst (Vendor_updateRating v d), Order_save x (snd (Vendor_updateRating v d)))"
  by (simp add: Vendor_updateRating_def vendor_stats_def Vendor_save_def Order_save_def
        Let_def split: list.splits)

lemma Vendor_updateRating_Order_save:
  "Vendor_updateRating v dr = (v, dr) \<Longrightarrow>
   Vendor_updateRating v (Order_save x dr) = (v, Order_save x dr)"
  by (simp add: Vendor_updateRating_Order_save_commute)

lemma find_SomeD: "find P xs = Some x \<Longrightarrow> P x \<and> x \<in> set xs"
  by (auto simp: find_Some_iff)

lemma find_by_key_after_replace:
  assumes "x \<in> set xs" and "k x' = k x"
  shows "find (\<lambda>y. k y = k x) (map (\<lambda>y. if k y = k x then x' else y) xs) = Some x'"
proof -
  have "find (\<lambda>y. k y = k x) xs \<noteq> None"
    using assms(1) by (auto simp: find_None_iff)
  then obtain x2 where F: "find (\<lambda>y. k y = k x) xs = Some x2" by blast
  then have K: "k x2 = k x" using find_SomeD[OF F] by simp
  have "find (\<lambda>y. k y = k x) (map (\<lambda>y. if k y = k x2 then x' else y) xs) = Some x'"
    using F assms(2) by (intro find_replace) auto
  then show ?thesis using K by simp
qed

lemma rateVendor_effect:
  assumes "rateVendor user vid body d = Inr d'"
  shows "\<exists>x rating v'. completed_order user vid d = Some x \<and>
           ratings d' = ratings d @ [rating] \<and>
           r_reviewer rating = u_id user \<and> r_vendor rating = Some vid \<and>
           r_waiter rating = None \<and> r_order rating = Some (o_id x) \<and> r_job rating = None \<and>
           r_rating rating = b_rating body \<and> r_isActive rating \<and>
           orders d' = map (\<lambda>y. if o_id y = o_id x then x\<lparr>o_isRated := True\<rparr> else y)
                         (orders d) \<and>
           Order_findById (o_id x) d' = Some (x\<lparr>o_isRated := True\<rparr>) \<and>
           Vendor_findById vid d' = Some v' \<and>
           Vendor_updateRating v' d' = (v', d') \<and>
           v_averageRating v'
             = ceil_tenth (Some (mean (map r_rating
                 (filter (\<lambda>r. r_vendor r = Some vid) (ratings d'))))) \<and>
           v_totalRatings v' = int (length (filter (\<lambda>r. r_vendor r = Some vid) (ratings d')))"
proof -
  define rating where "rating =
     \<lparr>r_id = new_ObjectId (ratings d), r_reviewer = u_id user,
      r_vendor = Some vid, r_waiter = None, r_order = Some (o_id (the (completed_order user vid d))),
      r_job = None, r_rating = b_rating body, r_attitudeRating = None,
      r_review = b_review body, r_isActive = True, r_response = None,
      r_isReported = False, r_reportReason = None\<rparr>"
  define dplus where "dplus = d\<lparr>ratings := ratings d @ [rating]\<rparr>"
  define dr where "dr = recompute_vendor vid dplus"
  obtain v x where V: "Vendor_findById vid d = Some v"
    and X: "completed_order user vid d = Some x"
    and D: "d' = Order_save (x\<lparr>o_isRated := True\<rparr>) dr"
    using rateVendor_Inr[OF assms] unfolding dr_def dplus_def rating_def by auto
  have I: "v_id v = vid"
    using find_SomeD[OF V[unfolded Vendor_findById_def]] by simp
  have XS: "x \<in> set (orders d)"
    using find_SomeD[OF X[unfolded completed_order_def]] by simp
  have R: "ratings d' = ratings d @ [rating]"
    using D by (simp add: dr_def dplus_def Order_save_def recompute_vendor_frame)
  have O: "orders d' = map (\<lambda>y. if o_id y = o_id x then x\<lparr>o_isRated := True\<rparr> else y)
                         (orders d)"
    using D by (simp add: dr_def dplus_def Order_save_def recompute_vendor_frame)
  have OF: "Order_findById (o_id x) d' = Some (x\<lparr>o_isRated := True\<rparr>)"
    unfolding Order_findById_def O
    using find_by_key_after_replace[of x "orders d" o_id "x\<lparr>o_isRated := True\<rparr>"] XS
    by simp
  define v' where "v' = fst (Vendor_updateRating v dplus)"
  have VP: "Vendor_findById vid dplus = Some v"
    using V by (simp add: dplus_def Vendor_findById_def)
  have VR: "Vendor_findById vid dr = Some v'"
    unfolding dr_def v'_def by (rule recompute_vendor_find[OF VP])
  have VD: "Vendor_findById vid d' = Some v'"
    using VR D by (simp add: Vendor_findById_def Order_save_def)
  have FX: "Vendor_updateRating v' d' = (v', d')"
    unfolding D
    by (rule Vendor_updateRating_Order_save)
       (use VR recompute_vendor_fix[of vid dplus v'] in \<open>simp add: dr_def\<close>)
  have RP: "ratings dplus = ratings d'" using R by (simp add: dplus_def)
  have MS: "filter (\<lambda>r. r_vendor r = Some (v_id v)) (ratings dplus) \<noteq> []"
    using I by (simp add: dplus_def rating_def)
  have AV: "v_averageRating v'
             = ceil_tenth (Some (mean (map r_rating
                 (filter (\<lambda>r. r_vendor r = Some vid) (ratings d')))))"
    using Vendor_updateRating_average(1)[OF refl MS] I RP by (simp add: v'_def)
  have TO: "v_totalRatings v' = int (length (filter (\<lambda>r. r_vendor r = Some vid) (ratings d')))"
    using Vendor_updateRating_average(2)[OF refl MS] I RP by (simp add: v'_def)
  have RF: "r_reviewer rating = u_id user \<and> r_vendor rating = Some vid \<and>
           r_waiter rating = None \<and> r_order rating = Some (o_id x) \<and> r_job rating = None \<and>
           r_rating rating = b_rating body \<and> r_isActive rating"
    using X by (simp add: rating_def)
  show ?thesis using X R RF O OF VD FX AV TO by blast
qed






lemma retracted_in_ratings:
  assumes "deleteRating actor rid d = Inr d'" and "Rating_findById rid d = Some rating"
  shows "rating\<lparr>r_isActive := False\<rparr> \<in> set (ratings d')" and "r_id rating = rid"
proof -
  have "Rating_findById rid d' = Some (rating\<lparr>r_isActive := False\<rparr>)"
    using deleteRating_ratings[OF assms(1)] assms(2) by auto
  then show "rating\<lparr>r_isActive := False\<rparr> \<in> set (ratings d')"
    using find_SomeD[of "\<lambda>x. r_id x = rid" "ratings d'"] by (simp add: Rating_findById_def)
  show "r_id rating = rid"
    using find_SomeD[OF assms(2)[unfolded Rating_findById_def]] by simp
qed

lemma retracted_blocks_rateVendor:
  assumes "deleteRating actor rid d = Inr d'" and "Rating_findById rid d = Some rating"
    and "r_reviewer rating = u_id user" and "r_vendor rating = Some vid"
    and "r_order rating = Some (o_id x)"
    and "Vendor_findById vid d' = Some v" and "completed_order user vid d' = Some x"
  shows "rateVendor user vid body d' = Inl DuplicateRating_vendor"
proof -
  have "\<exists>r\<in>set (ratings d'). r_reviewer r = u_id user \<and> r_vendor r = Some vid \<and>
                              r_order r = Some (o_id x)"
    using retracted_in_ratings(1)[OF assms(1,2)] assms(3,4,5)
    by (intro bexI[of _ "rating\<lparr>r_isActive := False\<rparr>"]) simp_all
  then show ?thesis using rateVendor_Duplicate_iff[OF assms(6,7)] by simp
qed

lemma retracted_unique_violation:
  assumes "deleteRating actor rid d = Inr d'" and "Rating_findById rid d = Some rating"
    and "r_id doc \<noteq> rid" and "r_reviewer doc = r_reviewer rating"
    and "(r_vendor rating \<noteq> None \<and> r_order rating \<noteq> None \<and>
          r_vendor doc = r_vendor rating \<and> r_order doc = r_order rating)
         \<or> (r_waiter rating \<noteq> None \<and> r_job rating \<noteq> None \<and>
          r_waiter doc = r_waiter rating \<and> r_job doc = r_job rating)"
  shows "unique_violation doc (ratings d')"
proof -
  have M: "rating\<lparr>r_isActive := False\<rparr> \<in> set (ratings d')" and I: "r_id rating = rid"
    using retracted_in_ratings[OF assms(1,2)] by simp_all
  from assms(5) show ?thesis
  proof
    assume A: "r_vendor rating \<noteq> None \<and> r_order rating \<noteq> None \<and>
          r_vendor doc = r_vendor rating \<and> r_order doc = r_order rating"
    have "list_ex (\<lambda>x. r_id x \<noteq> r_id doc \<and> r_reviewer x = r_reviewer doc \<and>
                     r_vendor x = r_vendor doc \<and> r_order x = r_order doc) (ratings d')"
      unfolding list_ex_iff using M I A assms(3,4)
      by (intro bexI[of _ "rating\<lparr>r_isActive := False\<rparr>"]) auto
    then show ?thesis using A by (simp add: unique_violation_def)
  next
    assume A: "r_waiter rating \<noteq> None \<and> r_job rating \<noteq> None \<and>
          r_waiter doc = r_waiter rating \<and> r_job doc = r_job rating"
    have "list_ex (\<lambda>x. r_id x \<noteq> r_id doc \<and> r_reviewer x = r_reviewer doc \<and>
                     r_waiter x = r_waiter doc \<and> r_job x = r_job doc) (ratings d')"
      unfolding list_ex_iff using M I A assms(3,4)
      by (intro bexI[of _ "rating\<lparr>r_isActive := False\<rparr>"]) auto
    then show ?thesis using A by (simp add: unique_violation_def)
  qed
qed

text \<open>
  Claim C6, amended. A retraction that \<open>deleteRating\<close> carries out is an
  administrator's, and after it a new submission by the reviewer of the retracted rating
  for the same vendor and order fails with the DuplicateRating error: the retracted
  rating is still stored, the duplicate check of \<open>rateVendor\<close> reads every stored
  rating, and the unique indexes of the schema reject a second document with the same
  reviewer, target and transaction, whatever \<open>isActive\<close> is.
\<close>

theorem retracted_rating_blocks_resubmission:
  "(\<forall>d'. deleteRating actor rid d = Inr d' \<longrightarrow> u_role actor = ''admin'')
   \<and> (\<forall>d' rating v x. deleteRating actor rid d = Inr d' \<and>
        Rating_findById rid d = Some rating \<and> r_reviewer rating = u_id user \<and>
        r_vendor rating = Some vid \<and> r_order rating = Some (o_id x) \<and>
        Vendor_findById vid d' = Some v \<and> completed_order user vid d' = Some x
        \<longrightarrow> rateVendor user vid body d' = Inl DuplicateRating_vendor)
   \<and> (\<forall>d' rating doc. deleteRating actor rid d = Inr d' \<and>
        Rating_findById rid d = Some rating \<and> r_id doc \<noteq> rid \<and>
        r_reviewer doc = r_reviewer rating \<and>
        ((r_vendor rating \<noteq> None \<and> r_order rating \<noteq> None \<and>
          r_vendor doc = r_vendor rating \<and> r_order doc = r_order rating)
         \<or> (r_waiter rating \<noteq> None \<and> r_job rating \<noteq> None \<and>
          r_waiter doc = r_waiter rating \<and> r_job doc = r_job rating))
        \<longrightarrow> unique_violation doc (ratings d'))"
proof (intro conjI allI impI)
  fix d' assume "deleteRating actor rid d = Inr d'"
  then show "u_role actor = ''admin''"
    using deleteRating_Inr[of actor rid d d'] by blast
next
  fix d' rating v x
  assume "deleteRating actor rid d = Inr d' \<and>
        Rating_findById rid d = Some rating \<and> r_reviewer rating = u_id user \<and>
        r_vendor rating = Some vid \<and> r_order rating = Some (o_id x) \<and>
        Vendor_findById vid d' = Some v \<and> completed_order user vid d' = Some x"
  then show "rateVendor user vid body d' = Inl DuplicateRating_vendor"
    using retracted_blocks_rateVendor[of actor rid d d' rating user vid x v body] by blast
next
  fix d' rating and doc :: Rating
  assume "deleteRating actor rid d = Inr d' \<and>
        Rating_findById rid d = Some rating \<and> r_id doc \<noteq> rid \<and>
        r_reviewer doc = r_reviewer rating \<and>
        ((r_vendor rating \<noteq> None \<and> r_order rating \<noteq> None \<and>
          r_vendor doc = r_vendor rating \<and> r_order doc = r_order rating)
         \<or> (r_waiter rating \<noteq> None \<and> r_job rating \<noteq> None \<and>
          r_waiter doc = r_waiter rating \<and> r_job doc = r_job rating))"
  then show "unique_violation doc (ratings d')"
    using retracted_unique_violation[of actor rid d d' rating doc] by blast
qed

text \<open>
  An administrator retracts the sample customer's rating of the sample vendor: the rating
  is stored, inactive; the customer's new submission fails, and the unique index rejects
  a new document for the same order.
\<close>

theorem retracted_rating_blocks_resubmission_witness:
  "(\<exists>d'. deleteRating sample_admin 1
            (sample_db [sample_order 100 20 ''completed''] []
               [vendor_rating 1 20 100 4 True]) = Inr d' \<and>
          u_role sample_admin = ''admin'' \<and>
          map r_isActive (ratings d') = [False] \<and>
          rateVendor sample_customer 1 (sample_body 5) d' = Inl DuplicateRating_vendor \<and>
          unique_violation (vendor_rating 2 20 100 5 True) (ratings d'))"
  using retracted_rating_blocks_resubmission
          [of sample_admin 1
              "sample_db [sample_order 100 20 ''completed''] []
                 [vendor_rating 1 20 100 4 True]"
              sample_customer 1 "sample_body 5"]
  by (simp add: eval_defs sample_defs)

text \<open>
  Claim C6 as stated fails: the sample customer rates the sample vendor for the completed
  order and an administrator retracts the rating, so that no active rating is stored; the
  customer's new submission for the same vendor and order fails with the DuplicateRating
  error.
\<close>

theorem resubmission_after_retraction_counterexample:
  "map (\<lambda>r. (r_id r, r_reviewer r, r_vendor r, r_order r, r_isActive r))
     (ratings (run [RateVendor sample_customer 1 (sample_body 4),
                    DeleteRating sample_admin 1]
                 (sample_db [sample_order 100 20 ''completed''] [] [])))
     = [(1, 20, Some 1, Some 100, False)]
   \<and> rateVendor sample_customer 1 (sample_body 5)
        (run [RateVendor sample_customer 1 (sample_body 4),
              DeleteRating sample_admin 1]
           (sample_db [sample_order 100 20 ''completed''] [] []))
      = Inl DuplicateRating_vendor"
  by (simp add: eval_defs sample_defs)

section \<open>The rating invariant\<close>

lemma rating_wellformed_exactly_one: "rating_wellformed r \<Longrightarrow> exactly_one_target r"
  by (auto simp: rating_wellformed_def exactly_one_target_def split: if_splits)

lemma rating_wellformed_update:
  "r_vendor r' = r_vendor r \<Longrightarrow> r_waiter r' = r_waiter r \<Longrightarrow> r_order r' = r_order r \<Longrightarrow>
   r_job r' = r_job r \<Longrightarrow> rating_wellformed r' = rating_wellformed r"
  by (simp add: rating_wellformed_def)

lemma Rating_save_ratings:
  "Rating_save r d = Inr d' \<Longrightarrow>
   ratings d' = map (\<lambda>x. if r_id x = r_id r then r else x) (ratings d)"
  using Rating_save_Inr[of r d d'] by (simp add: post_save_frame)

lemma Rating_save_rejects:
  "\<not> exactly_one_target r \<Longrightarrow> \<exists>e. Rating_save r d = Inl e"
  by (auto simp: Rating_save_def pre_save_None_iff[symmetric] split: option.splits)

lemma Rating_create_rejects:
  "\<not> exactly_one_target doc \<Longrightarrow> \<exists>e. Rating_create doc d = Inl e"
  by (auto simp: Rating_create_def Let_def pre_save_def exactly_one_target_def
        split: option.splits)

lemma Rating_save_rejects_valid:
  "\<not> exactly_one_target r \<Longrightarrow> Rating_validate r = None \<Longrightarrow>
   Rating_save r d
     = Inl (JsError ''Must rate either a vendor or a waiter, not both or neither'')"
  by (auto simp: Rating_save_def pre_save_def exactly_one_target_def split: option.splits)

lemma updateOrderStatus_ratings:
  "updateOrderStatus user oid status d = Inr d' \<Longrightarrow> ratings d' = ratings d"
  by (auto simp: updateOrderStatus_def Let_def Order_save_def Vendor_save_def
        split: option.splits if_splits)

lemma updateJobStatus_ratings:
  "updateJobStatus user jid status reason now d = Inr d' \<Longrightarrow> ratings d' = ratings d"
  by (auto simp: updateJobStatus_def Let_def Job_save_def Waiter_save_def
        split: option.splits if_splits)

lemma replace_preserves:
  assumes "\<forall>r\<in>set rs. rating_wellformed r" and "rating_wellformed r'"
  shows "\<forall>r\<in>set (map (\<lambda>x. if r_id x = i then r' else x) rs). rating_wellformed r"
  using assms by auto

lemma reportRating_preserves:
  assumes "reportRating user rid reason d = Inr d'"
    and "\<forall>r\<in>set (ratings d). rating_wellformed r"
  shows "\<forall>r\<in>set (ratings d'). rating_wellformed r"
proof -
  obtain rating where F: "Rating_findById rid d = Some rating"
    and S: "Rating_save
              (rating\<lparr>r_isReported := True,
                      r_reportReason :=
                        (if truthy reason then reason else Some ''Inappropriate content'')\<rparr>) d
            = Inr d'"
    using assms(1) by (auto simp: reportRating_def split: option.splits if_splits)
  have "rating \<in> set (ratings d)"
    using find_SomeD[OF F[unfolded Rating_findById_def]] by simp
  then have W: "rating_wellformed
              (rating\<lparr>r_isReported := True,
                      r_reportReason :=
                        (if truthy reason then reason else Some ''Inappropriate content'')\<rparr>)"
    using assms(2) by (simp add: rating_wellformed_def)
  show ?thesis
    unfolding Rating_save_ratings[OF S] by (rule replace_preserves[OF assms(2) W])
qed

lemma respondToRating_preserves:
  assumes "respondToRating user rid message now d = Inr d'"
    and "\<forall>r\<in>set (ratings d). rating_wellformed r"
  shows "\<forall>r\<in>set (ratings d'). rating_wellformed r"
proof -
  obtain rating where F: "Rating_findById rid d = Some rating"
    and S: "Rating_save (rating\<lparr>r_response := Some (message, now)\<rparr>) d = Inr d'"
    using assms(1)
    by (auto simp: respondToRating_def Let_def split: option.splits if_splits)
  have "rating \<in> set (ratings d)"
    using find_SomeD[OF F[unfolded Rating_findById_def]] by simp
  then have W: "rating_wellformed (rating\<lparr>r_response := Some (message, now)\<rparr>)"
    using assms(2) by (simp add: rating_wellformed_def)
  show ?thesis
    unfolding Rating_save_ratings[OF S] by (rule replace_preserves[OF assms(2) W])
qed

lemma deleteRating_preserves:
  assumes "deleteRating user rid d = Inr d'"
    and "\<forall>r\<in>set (ratings d). rating_wellformed r"
  shows "\<forall>r\<in>set (ratings d'). rating_wellformed r"
proof -
  obtain rating where F: "Rating_findById rid d = Some rating"
    and R: "ratings d' = map (\<lambda>x. if r_id x = rid then rating\<lparr>r_isActive := False\<rparr> else x)
                          (ratings d)"
    using deleteRating_ratings[OF assms(1)] by blast
  have "rating \<in> set (ratings d)"
    using find_SomeD[OF F[unfolded Rating_findById_def]] by simp
  then have W: "rating_wellformed (rating\<lparr>r_isActive := False\<rparr>)"
    using assms(2) by (simp add: rating_wellformed_def)
  show ?thesis unfolding R by (rule replace_preserves[OF assms(2) W])
qed

lemma rateVendor_preserves:
  assumes "rateVendor user vid body d = Inr d'"
    and "\<forall>r\<in>set (ratings d). rating_wellformed r"
  shows "\<forall>r\<in>set (ratings d'). rating_wellformed r"
proof -
  obtain rating where R: "ratings d' = ratings d @ [rating]"
    and W: "r_vendor rating = Some vid \<and> r_waiter rating = None \<and>
            r_order rating \<noteq> None \<and> r_job rating = None"
    using rateVendor_effect[OF assms(1)] by auto
  have "rating_wellformed rating" using W by (simp add: rating_wellformed_def)
  then show ?thesis using assms(2) R by auto
qed

lemma rateWaiter_preserves:
  assumes "rateWaiter user wid body d = Inr d'"
    and "\<forall>r\<in>set (ratings d). rating_wellformed r"
  shows "\<forall>r\<in>set (ratings d'). rating_wellformed r"
  using assms(1) rateWaiter_never_Inr[of user wid body d d'] by simp

lemma handle_preserves:
  assumes "handle q d = Inr d'" and "\<forall>r\<in>set (ratings d). rating_wellformed r"
  shows "\<forall>r\<in>set (ratings d'). rating_wellformed r"
proof (cases q)
  case (RateVendor user vid body)
  then show ?thesis using assms rateVendor_preserves by simp
next
  case (RateWaiter user wid body)
  then show ?thesis using assms rateWaiter_preserves by simp
next
  case (DeleteRating user rid)
  then show ?thesis using assms deleteRating_preserves by simp
next
  case (ReportRating user rid reason)
  then show ?thesis using assms reportRating_preserves by simp
next
  case (RespondToRating user rid message now)
  then show ?thesis using assms respondToRating_preserves by simp
next
  case (UpdateOrderStatus user oid status)
  then show ?thesis using assms updateOrderStatus_ratings[of user oid status d d'] by simp
next
  case (UpdateJobStatus user jid status reason now)
  then show ?thesis
    using assms updateJobStatus_ratings[of user jid status reason now d d'] by simp
qed

lemma run_preserves:
  "\<forall>r\<in>set (ratings d). rating_wellformed r \<Longrightarrow>
   \<forall>r\<in>set (ratings (run qs d)). rating_wellformed r"
proof (induction qs arbitrary: d)
  case Nil
  then show ?case by simp
next
  case (Cons q qs)
  show ?case
  proof (cases "handle q d")
    case (Inl e)
    then show ?thesis using Cons by simp
  next
    case (Inr d')
    then show ?thesis using Cons.IH[OF handle_preserves[OF Inr Cons.prems]] by simp
  qed
qed

text \<open>
  Claim C9. Every rating stored after a run of status and rating requests has exactly one
  of the targets \<open>vendor\<close> and \<open>waiter\<close>, with an Order reference and no Job reference
  for a vendor and a Job reference and no Order reference for a waiter, when the ratings
  stored before the run have (and so from a database without ratings). A document with
  both targets or neither is rejected by \<open>create\<close> and by \<open>save\<close>: the result is an
  error, with the Error of the pre-save hook when the document passes the validators,
  and nothing is written.
\<close>

theorem rating_target_invariant:
  "((\<forall>r\<in>set (ratings d). rating_wellformed r) \<longrightarrow>
      (\<forall>r\<in>set (ratings (run qs d)). rating_wellformed r \<and> exactly_one_target r))
   \<and> (ratings d = [] \<longrightarrow>
      (\<forall>r\<in>set (ratings (run qs d)). rating_wellformed r \<and> exactly_one_target r))
   \<and> (\<not> exactly_one_target doc \<longrightarrow>
        (\<exists>e. Rating_create doc d = Inl e) \<and> (\<exists>e. Rating_save doc d = Inl e))
   \<and> (\<not> exactly_one_target doc \<and> Rating_validate doc = None \<longrightarrow>
        Rating_save doc d
          = Inl (JsError ''Must rate either a vendor or a waiter, not both or neither''))"
proof (intro conjI impI)
  assume "\<forall>r\<in>set (ratings d). rating_wellformed r"
  then show "\<forall>r\<in>set (ratings (run qs d)). rating_wellformed r \<and> exactly_one_target r"
    using run_preserves[of d qs] rating_wellformed_exactly_one by blast
next
  assume "ratings d = []"
  then have "\<forall>r\<in>set (ratings d). rating_wellformed r" by simp
  then show "\<forall>r\<in>set (ratings (run qs d)). rating_wellformed r \<and> exactly_one_target r"
    using run_preserves[of d qs] rating_wellformed_exactly_one by blast
next
  assume "\<not> exactly_one_target doc"
  then show "\<exists>e. Rating_create doc d = Inl e" by (rule Rating_create_rejects)
next
  assume "\<not> exactly_one_target doc"
  then show "\<exists>e. Rating_save doc d = Inl e" by (rule Rating_save_rejects)
next
  assume "\<not> exactly_one_target doc \<and> Rating_validate doc = None"
  then show "Rating_save doc d
          = Inl (JsError ''Must rate either a vendor or a waiter, not both or neither'')"
    by (simp add: Rating_save_rejects_valid)
qed

text \<open>
  With a waiter rating stored, the sample customer rates the sample vendor, the sample
  vendor's submission for the sample waiter is refused and an administrator retracts the
  customer's rating: the two stored ratings have one target each with the matching
  transaction; a vendor rating that is given a waiter as well, or no target at all, is
  rejected.
\<close>

theorem rating_target_invariant_witness:
  "map (\<lambda>r. (r_vendor r, r_waiter r, r_order r, r_job r))
     (ratings (run [RateVendor sample_customer 1 (sample_body 4),
                    RateWaiter sample_vendor_user 2 (sample_body 5),
                    DeleteRating sample_admin 2]
                 (sample_db [sample_order 100 20 ''completed'']
                    [sample_job 200 ''completed''] [waiter_rating 1 200 5 True])))
     = [(None, Some 2, None, Some 200), (Some 1, None, Some 100, None)]
   \<and> rating_wellformed (waiter_rating 1 200 5 True)
   \<and> Rating_save ((vendor_rating 1 20 100 4 True)\<lparr>r_waiter := Some 2\<rparr>)
        (sample_db [sample_order 100 20 ''completed''] [sample_job 200 ''completed'']
           [waiter_rating 1 200 5 True])
      = Inl (JsError ''Must rate either a vendor or a waiter, not both or neither'')
   \<and> Rating_create ((vendor_rating 1 20 100 4 True)\<lparr>r_vendor := None\<rparr>)
        (sample_db [sample_order 100 20 ''completed''] [sample_job 200 ''completed''] [])
      = Inl (JsError ''Must rate either a vendor or a waiter, not both or neither'')"
  using rating_target_invariant
          [of "sample_db [sample_order 100 20 ''completed''] [sample_job 200 ''completed'']
                 [waiter_rating 1 200 5 True]"
              "[RateVendor sample_customer 1 (sample_body 4),
                RateWaiter sample_vendor_user 2 (sample_body 5),
                DeleteRating sample_admin 2]"
              "(vendor_rating 1 20 100 4 True)\<lparr>r_waiter := Some 2\<rparr>"]
  by (simp add: eval_defs sample_defs exactly_one_target_def rating_wellformed_def)

end
